theory Spec2Isabelle
  imports Complex_Main "HOL-Library.Word"
begin

section \<open>The vendor SDK as seen from camera\_handle.cpp\<close>

text \<open>
  camera\_handle.cpp drives a VRmagic camera through the vendor's C library
  (the \<open>VRmUsbCam...\<close> functions). The library and its header are third-party code;
  the types below carry the fields that camera\_handle.cpp reads or writes, and the
  library itself is a parameter of the model (record \<open>sdk\<close> below): every theorem
  holds for every behaviour of the library.

  Modelled are \<open>initCamera\<close> with everything it calls, and \<open>grabFrame\<close>. The
  constructor, the destructor, \<open>startCamera\<close> and \<open>cameraShutdown\<close> are
  straight-line sequences of library calls; the \<open>bool\<close> overloads of
  \<open>setSingleProperty\<close> and \<open>checkAndSanitizeProperty\<close> are never called in the file.
\<close>

type_synonym VRmDWORD = "32 word"
type_synonym VRmBYTE = "8 word"

text \<open>A C \<open>int\<close>: 32 bits, compared as a signed value (\<open>sint\<close>).\<close>
type_synonym cint = "32 word"

text \<open>A device handle that a successful \<open>VRmUsbCamOpenDevice\<close> hands out;
  the null handle is \<open>None\<close> in the field \<open>device\<close> below.\<close>
type_synonym VRmDevice = nat

text \<open>A C \<open>float\<close>, as far as the code uses it: the values are only compared
  (\<open><\<close>, \<open>>\<close>) and copied, never computed with. A comparison with a NaN operand
  is false.\<close>
datatype cfloat = NaN | NegInf | Finite real | PosInf

fun float_less :: "cfloat \<Rightarrow> cfloat \<Rightarrow> bool" where
  "float_less (Finite a) (Finite b) = (a < b)"
| "float_less NegInf (Finite b) = True"
| "float_less NegInf PosInf = True"
| "float_less (Finite a) PosInf = True"
| "float_less _ _ = False"


text \<open>The property identifiers that occur in camera\_handle.cpp.\<close>
datatype VRmPropId =
    VRM_PROPID_GRAB_SENSOR_PROPS_SELECT_E
  | VRM_PROPID_GRAB_SENSOR_PROPS_SELECT_1
  | VRM_PROPID_GRAB_SENSOR_PROPS_SELECT_2
  | VRM_PROPID_GRAB_SENSOR_PROPS_SELECT_3
  | VRM_PROPID_GRAB_SENSOR_PROPS_SELECT_4
  | VRM_PROPID_CAM_GAIN_MONOCHROME_I
  | VRM_PROPID_CAM_EXPOSURE_TIME_F

datatype VRmPropType =
    VRM_PROP_TYPE_BOOL
  | VRM_PROP_TYPE_INT
  | VRM_PROP_TYPE_FLOAT
  | VRM_PROP_TYPE_STRING
  | VRM_PROP_TYPE_ENUM

datatype VRmColorFormat =
    VRM_ARGB_4X8
  | VRM_BGR_3X8
  | VRM_RGB_565
  | VRM_YUYV_4X8
  | VRM_GRAY_8

record VRmImageFormat =
  m_width :: VRmDWORD
  m_height :: VRmDWORD
  m_color_format :: VRmColorFormat

record VRmImage =
  m_image_format :: VRmImageFormat
  mp_buffer :: "VRmBYTE list"
  m_pitch :: VRmDWORD

record VRmDeviceKey =
  m_busy :: bool
  mp_product_str :: string
  mp_manufacturer_str :: string

record VRmPropInfo =
  m_type :: VRmPropType
  m_description :: string

text \<open>\<open>VRmPropAttribsI\<close> and \<open>VRmPropAttribsF\<close>: the same three fields at two types.\<close>
record 'a VRmPropAttribs =
  m_default :: 'a
  m_min :: 'a
  m_max :: 'a

section \<open>Configuration, output image, observable events\<close>

record Config =
  portLeft :: VRmDWORD
  portRight :: VRmDWORD
  gainLeft :: cint
  gainRight :: cint
  exposureLeft :: cfloat
  exposureRight :: cfloat
  setGain :: bool
  setExposure :: bool
  timeout :: cint
  frameId :: string
  enableLogging :: bool

text \<open>\<open>ros::Time\<close>: seconds and nanoseconds.\<close>
type_synonym Time = "32 word \<times> 32 word"

text \<open>\<open>sensor_msgs::Image\<close>; \<open>width\<close>, \<open>height\<close> and \<open>step\<close> are \<open>uint32\<close>,
  \<open>data\<close> is a byte vector.\<close>
record Image =
  stamp :: Time
  frame_id :: string
  height :: "32 word"
  width :: "32 word"
  encoding :: string
  step :: "32 word"
  data :: "8 word list"

datatype severity = INFO | WARN | ERROR | FATAL

text \<open>The calls into the library, with the arguments that matter.\<close>
datatype sdk_call =
    GetVersion
  | GetDeviceKeyListSize
  | GetDeviceKeyListEntry VRmDWORD
  | OpenDevice VRmDeviceKey
  | FreeDeviceKey VRmDeviceKey
  | SetPropertyValueE VRmPropId VRmPropId
  | SetPropertyValueI VRmPropId cint
  | SetPropertyValueF VRmPropId cfloat
  | GetPropertySupported VRmPropId
  | GetPropertyInfo VRmPropId
  | GetPropertyAttribsI VRmPropId
  | GetPropertyAttribsF VRmPropId
  | GetSourceFormatEx VRmDWORD
  | GetStringFromColorFormat VRmColorFormat
  | GetTargetFormatListSizeEx2 VRmDWORD
  | GetTargetFormatListEntryEx2 VRmDWORD VRmDWORD
  | LockNextImageEx2 VRmDWORD cint
  | NewImage VRmImageFormat
  | ConvertImage VRmImage VRmImage
  | FreeImage VRmImage
  | UnlockNextImage VRmImage

text \<open>What the process does that can be seen from outside, in order: a log line
  (severity and format string), or a call into the library, recorded with the value
  that the device's sensor-select register has when the call is made.\<close>
datatype event =
    Log severity string
  | Hw "VRmPropId option" sdk_call

text \<open>How a function ends: it returns; the process exits with a status (the
  \<open>exit\<close> calls); or the C++ has undefined behaviour (control flows off the end of a
  value-returning function, an indeterminate value is read, a buffer is indexed out
  of range).\<close>
datatype outcome = Returned | Exited int | Undefined

definition EXIT_FAILURE :: int where
  "EXIT_FAILURE = 1"

text \<open>
  The library. A function with an out-parameter returns \<open>Some\<close> of the value written
  when the call succeeds and \<open>None\<close> when it returns false; one without returns its
  success as a \<open>bool\<close>. The per-sensor property calls get the current value of the
  sensor-select register as their first argument: the device has a single
  active-sensor register, and their answers may depend on it.
\<close>
record sdk =
  VRmUsbCamGetVersion :: "VRmDWORD option"
  VRmUsbCamGetDeviceKeyListSize :: "VRmDWORD option"
  VRmUsbCamGetDeviceKeyListEntry :: "VRmDWORD \<Rightarrow> VRmDeviceKey option"
  VRmUsbCamOpenDevice :: "VRmDeviceKey \<Rightarrow> VRmDevice option"
  VRmUsbCamFreeDeviceKey :: "VRmDeviceKey \<Rightarrow> bool"
  VRmUsbCamSetPropertyValueE :: "VRmPropId option \<Rightarrow> VRmPropId \<Rightarrow> VRmPropId \<Rightarrow> bool"
  VRmUsbCamSetPropertyValueI :: "VRmPropId option \<Rightarrow> VRmPropId \<Rightarrow> cint \<Rightarrow> bool"
  VRmUsbCamSetPropertyValueF :: "VRmPropId option \<Rightarrow> VRmPropId \<Rightarrow> cfloat \<Rightarrow> bool"
  VRmUsbCamGetPropertySupported :: "VRmPropId option \<Rightarrow> VRmPropId \<Rightarrow> bool option"
  VRmUsbCamGetPropertyInfo :: "VRmPropId option \<Rightarrow> VRmPropId \<Rightarrow> VRmPropInfo option"
  VRmUsbCamGetPropertyAttribsI :: "VRmPropId option \<Rightarrow> VRmPropId \<Rightarrow> cint VRmPropAttribs option"
  VRmUsbCamGetPropertyAttribsF :: "VRmPropId option \<Rightarrow> VRmPropId \<Rightarrow> cfloat VRmPropAttribs option"
  VRmUsbCamGetSourceFormatEx :: "VRmDWORD \<Rightarrow> VRmImageFormat option"
  VRmUsbCamGetStringFromColorFormat :: "VRmColorFormat \<Rightarrow> string option"
  VRmUsbCamGetTargetFormatListSizeEx2 :: "VRmDWORD \<Rightarrow> VRmDWORD option"
  VRmUsbCamGetTargetFormatListEntryEx2 :: "VRmDWORD \<Rightarrow> VRmDWORD \<Rightarrow> VRmImageFormat option"
  VRmUsbCamLockNextImageEx2 :: "VRmDWORD \<Rightarrow> cint \<Rightarrow> (VRmImage \<times> VRmDWORD) option"
  VRmUsbCamNewImage :: "VRmImageFormat \<Rightarrow> VRmImage option"
  VRmUsbCamConvertImage :: "VRmImage \<Rightarrow> VRmImage \<Rightarrow> VRmImage option"
  VRmUsbCamFreeImage :: "VRmImage \<Rightarrow> bool"
  VRmUsbCamUnlockNextImage :: "VRmImage \<Rightarrow> bool"

text \<open>
  The state that the member functions of \<open>CameraHandle\<close> work on: the members
  \<open>device\<close>, \<open>conf\<close> and \<open>targetFormat\<close> (\<open>None\<close>: never assigned, the
  constructor does not initialise it), the device's sensor-select register, and
  the events so far.
\<close>
record state =
  device :: "VRmDevice option"
  conf :: Config
  targetFormat :: "VRmImageFormat option"
  sensor_select :: "VRmPropId option"
  trace :: "event list"

definition ros_log :: "severity \<Rightarrow> string \<Rightarrow> state \<Rightarrow> state" where
  "ros_log sev msg s = s\<lparr>trace := trace s @ [Log sev msg]\<rparr>"

definition sdk_called :: "sdk_call \<Rightarrow> state \<Rightarrow> state" where
  "sdk_called c s = s\<lparr>trace := trace s @ [Hw (sensor_select s) c]\<rparr>"

text \<open>The failing branch of the macro \<open>VRM_CHECK\<close> logs an error line (and
  then calls \<open>exit(EXIT_FAILURE)\<close>).\<close>
definition VRM_CHECK_log :: "state \<Rightarrow> state" where
  "VRM_CHECK_log s = ros_log ERROR ''%s : Line %d'' s"

definition TARGET_COLOR_FORMAT :: VRmColorFormat where
  "TARGET_COLOR_FORMAT = VRM_BGR_3X8"

section \<open>Frame acquisition: grabFrame\<close>

text \<open>\<open>std::vector::resize\<close>: keeps the leading elements, fills with zero bytes.\<close>
definition resize :: "nat \<Rightarrow> 8 word list \<Rightarrow> 8 word list" where
  "resize n xs = take n xs @ replicate (n - length xs) 0"

text \<open>
  The inner loop of lines 357-359, for row \<open>y\<close> from column \<open>x\<close> on. \<open>buf\<close> and
  \<open>pitch\<close> are \<open>targetImage->mp_buffer\<close> and \<open>m_pitch\<close>, \<open>w\<close> is \<open>img.width\<close>,
  \<open>d\<close> is \<open>img.data\<close>. Both indices are computed in 32-bit unsigned
  arithmetic. \<open>None\<close>: an index is out of range.
\<close>
function copy_row ::
  "VRmBYTE list \<Rightarrow> VRmDWORD \<Rightarrow> 32 word \<Rightarrow> 32 word \<Rightarrow> 32 word \<Rightarrow> 8 word list \<Rightarrow> 8 word list option"
where
  "copy_row buf pitch w y x d =
     (if x < w * 3 then
        (let dst = unat (y * w * 3 + x); src = unat (y * pitch + x) in
         if dst < length d \<and> src < length buf
         then copy_row buf pitch w y (x + 1) (d[dst := buf ! src])
         else None)
      else Some d)"
  by pat_completeness auto
termination
proof (relation "measure (\<lambda>(buf, pitch, w, y, x, d). unat (w * 3) - unat x)")
  show "wf (measure (\<lambda>(buf, pitch, w, y, x, d). unat (w * 3) - unat x))"
    by simp
next
  fix buf :: "VRmBYTE list" and pitch w y x :: "32 word" and d :: "8 word list"
    and dst src :: nat
  assume "x < w * 3"
  then show "((buf, pitch, w, y, x + 1, d[dst := buf ! src]), (buf, pitch, w, y, x, d))
      \<in> measure (\<lambda>(buf, pitch, w, y, x, d). unat (w * 3) - unat x)"
    using unsigned_less [of "w * 3", where 'a = nat]
    by (simp add: word_less_nat_alt unat_word_ariths)
qed

text \<open>The outer loop of lines 356-360, from row \<open>y\<close> on; \<open>h\<close> is \<open>img.height\<close>.\<close>
function copy_rows ::
  "VRmBYTE list \<Rightarrow> VRmDWORD \<Rightarrow> 32 word \<Rightarrow> 32 word \<Rightarrow> 32 word \<Rightarrow> 8 word list \<Rightarrow> 8 word list option"
where
  "copy_rows buf pitch w h y d =
     (if y < h then
        (case copy_row buf pitch w y 0 d of
           None \<Rightarrow> None
         | Some d' \<Rightarrow> copy_rows buf pitch w h (y + 1) d')
      else Some d)"
  by pat_completeness auto
termination
proof (relation "measure (\<lambda>(buf, pitch, w, h, y, d). unat h - unat y)")
  show "wf (measure (\<lambda>(buf, pitch, w, h, y, d). unat h - unat y))"
    by simp
next
  fix buf :: "VRmBYTE list" and pitch w h y :: "32 word" and d d' :: "8 word list"
  assume "y < h"
  then show "((buf, pitch, w, h, y + 1, d'), (buf, pitch, w, h, y, d))
      \<in> measure (\<lambda>(buf, pitch, w, h, y, d). unat h - unat y)"
    using unsigned_less [of h, where 'a = nat]
    by (simp add: word_less_nat_alt unat_word_ariths)
qed

definition BGR8 :: string where
  "BGR8 = ''bgr8''"

text \<open>Lines 347-353: the fields of the image message, from the converted frame.\<close>
definition fill_image :: "VRmImage \<Rightarrow> Time \<Rightarrow> string \<Rightarrow> Image \<Rightarrow> Image" where
  "fill_image targetImage triggerTime fid img =
    (let img1 = img\<lparr>width := m_width (m_image_format targetImage)\<rparr>;
         img2 = img1\<lparr>height := m_height (m_image_format targetImage)\<rparr>;
         img3 = img2\<lparr>step := width img2 * 3\<rparr>;
         img4 = img3\<lparr>encoding := BGR8\<rparr>;
         img5 = img4\<lparr>data := resize (unat (height img4 * step img4)) (data img4)\<rparr>;
         img6 = img5\<lparr>stamp := triggerTime\<rparr>
     in img6\<lparr>frame_id := fid\<rparr>)"

text \<open>Lines 355-364: the copy loops, then the two buffers are given back.\<close>
definition repack_and_release ::
  "sdk \<Rightarrow> VRmImage \<Rightarrow> VRmImage \<Rightarrow> Image \<Rightarrow> state \<Rightarrow> outcome \<times> Image \<times> state"
where
  "repack_and_release hw sourceImg targetImage img s =
    (case copy_rows (mp_buffer targetImage) (m_pitch targetImage)
            (width img) (height img) 0 (data img) of
       None \<Rightarrow> (Undefined, img, s)
     | Some d \<Rightarrow>
         (let img' = img\<lparr>data := d\<rparr>;
              s1 = sdk_called (FreeImage targetImage) s
          in if \<not> VRmUsbCamFreeImage hw targetImage
             then (Exited EXIT_FAILURE, img', VRM_CHECK_log s1)
             else
               (let s2 = sdk_called (UnlockNextImage sourceImg) s1
                in if \<not> VRmUsbCamUnlockNextImage hw sourceImg
                   then (Exited EXIT_FAILURE, img', VRM_CHECK_log s2)
                   else (Returned, img', s2))))"

text \<open>
  \<open>grabFrame\<close> (lines 337-368). \<open>img\<close> is the caller's image, passed by reference:
  the function returns it as it is when the function ends. The successful branch
  reads the member \<open>targetFormat\<close>.
\<close>
definition grabFrame ::
  "sdk \<Rightarrow> VRmDWORD \<Rightarrow> Image \<Rightarrow> Time \<Rightarrow> state \<Rightarrow> outcome \<times> Image \<times> state"
where
  "grabFrame hw port img triggerTime s =
    (let s1 = sdk_called (LockNextImageEx2 port (timeout (conf s))) s in
     case VRmUsbCamLockNextImageEx2 hw port (timeout (conf s)) of
       Some (sourceImg, framesDropped) \<Rightarrow>
         (case targetFormat s1 of
            None \<Rightarrow> (Undefined, img, s1)
          | Some tf \<Rightarrow>
              (let s2 = sdk_called (NewImage tf) s1 in
               case VRmUsbCamNewImage hw tf of
                 None \<Rightarrow> (Exited EXIT_FAILURE, img, VRM_CHECK_log s2)
               | Some newImage \<Rightarrow>
                   (let s3 = sdk_called (ConvertImage sourceImg newImage) s2 in
                    case VRmUsbCamConvertImage hw sourceImg newImage of
                      None \<Rightarrow> (Exited EXIT_FAILURE, img, VRM_CHECK_log s3)
                    | Some targetImage \<Rightarrow>
                        repack_and_release hw sourceImg targetImage
                          (fill_image targetImage triggerTime (frameId (conf s3)) img) s3)))
     | None \<Rightarrow> (Returned, img, ros_log FATAL ''Could not lock image: %s'' s1))"

section \<open>Sensor port selection\<close>

text \<open>
  \<open>portnumToPropId\<close> (lines 24-37). The default branch logs and then control
  reaches the closing brace of a function that returns a value: no value is
  returned (\<open>None\<close>).
\<close>
definition portnumToPropId :: "VRmDWORD \<Rightarrow> state \<Rightarrow> VRmPropId option \<times> state" where
  "portnumToPropId port s =
     (if port = 1 then (Some VRM_PROPID_GRAB_SENSOR_PROPS_SELECT_1, s)
      else if port = 2 then (Some VRM_PROPID_GRAB_SENSOR_PROPS_SELECT_2, s)
      else if port = 3 then (Some VRM_PROPID_GRAB_SENSOR_PROPS_SELECT_3, s)
      else if port = 4 then (Some VRM_PROPID_GRAB_SENSOR_PROPS_SELECT_4, s)
      else (None, ros_log FATAL ''Cannot convert port to prop id: %d'' s))"

text \<open>
  Modelled from the spec: what a call of the library's \<open>VRmUsbCamSetPropertyValueE\<close>
  does to the device. The device "exposes a single active-sensor register": a
  successful write of the property \<open>VRM_PROPID_GRAB_SENSOR_PROPS_SELECT_E\<close> makes
  the written value the content of that register; a failed write leaves it.
\<close>
definition write_enum_property :: "sdk \<Rightarrow> VRmPropId \<Rightarrow> VRmPropId \<Rightarrow> state \<Rightarrow> bool \<times> state" where
  "write_enum_property hw p v s =
     (let ok = VRmUsbCamSetPropertyValueE hw (sensor_select s) p v;
          s1 = sdk_called (SetPropertyValueE p v) s
      in (ok, if ok \<and> p = VRM_PROPID_GRAB_SENSOR_PROPS_SELECT_E
              then s1\<lparr>sensor_select := Some v\<rparr> else s1))"

text \<open>\<open>setSensorActive\<close> (lines 115-118). The result of the write is not looked at.
  Using the value of a call that returned none is undefined.\<close>
definition setSensorActive :: "sdk \<Rightarrow> VRmDWORD \<Rightarrow> state \<Rightarrow> outcome \<times> state" where
  "setSensorActive hw port s =
     (case portnumToPropId port s of
        (None, s1) \<Rightarrow> (Undefined, s1)
      | (Some sensorProp, s1) \<Rightarrow>
          (Returned,
           snd (write_enum_property hw VRM_PROPID_GRAB_SENSOR_PROPS_SELECT_E sensorProp s1)))"

text \<open>Sequencing: the second function runs when the first has returned.\<close>
definition and_then ::
  "(state \<Rightarrow> outcome \<times> state) \<Rightarrow> (state \<Rightarrow> outcome \<times> state) \<Rightarrow> state \<Rightarrow> outcome \<times> state"
where
  "and_then f g s = (case f s of (Returned, s') \<Rightarrow> g s' | (oc, s') \<Rightarrow> (oc, s'))"

section \<open>Opening the device\<close>

text \<open>Lines 94-95: the checked open of one key, and the log line.\<close>
definition open_key :: "sdk \<Rightarrow> VRmDeviceKey \<Rightarrow> state \<Rightarrow> outcome \<times> state" where
  "open_key hw devKey s =
     (let s1 = sdk_called (OpenDevice devKey) s in
      case VRmUsbCamOpenDevice hw devKey of
        None \<Rightarrow> (Exited EXIT_FAILURE, VRM_CHECK_log s1)
      | Some d \<Rightarrow> (Returned, ros_log INFO ''Found device: %s [%s]'' (s1\<lparr>device := Some d\<rparr>)))"

text \<open>Line 97: the checked release of the key.\<close>
definition free_key :: "sdk \<Rightarrow> VRmDeviceKey \<Rightarrow> state \<Rightarrow> outcome \<times> state" where
  "free_key hw devKey s =
     (let s1 = sdk_called (FreeDeviceKey devKey) s in
      if VRmUsbCamFreeDeviceKey hw devKey then (Returned, s1)
      else (Exited EXIT_FAILURE, VRM_CHECK_log s1))"

text \<open>The loop of lines 91-98, from index \<open>i\<close> on; \<open>n\<close> is the variable \<open>size\<close>.\<close>
function openDevice_loop :: "sdk \<Rightarrow> VRmDWORD \<Rightarrow> VRmDWORD \<Rightarrow> state \<Rightarrow> outcome \<times> state" where
  "openDevice_loop hw n i s =
     (if i < n \<and> device s = None then
        (let s1 = sdk_called (GetDeviceKeyListEntry i) s in
         case VRmUsbCamGetDeviceKeyListEntry hw i of
           None \<Rightarrow> (Exited EXIT_FAILURE, VRM_CHECK_log s1)
         | Some devKey \<Rightarrow>
             (case (if \<not> m_busy devKey then open_key hw devKey s1 else (Returned, s1)) of
                (Returned, s2) \<Rightarrow>
                  (case free_key hw devKey s2 of
                     (Returned, s3) \<Rightarrow> openDevice_loop hw n (i + 1) s3
                   | (oc, s3) \<Rightarrow> (oc, s3))
              | (oc, s2) \<Rightarrow> (oc, s2)))
      else (Returned, s))"
  by pat_completeness auto
termination
proof (relation "measure (\<lambda>(hw, n, i, s). unat n - unat i)")
  show "wf (measure (\<lambda>(hw, n, i, s). unat n - unat i))"
    by simp
next
  fix hw :: sdk and n i :: VRmDWORD and s s3 :: state
  assume "i < n \<and> device s = None"
  then have "i < n" by simp
  then show "((hw, n, i + 1, s3), (hw, n, i, s))
      \<in> measure (\<lambda>(hw, n, i, s). unat n - unat i)"
    using unsigned_less [of n, where 'a = nat]
    by (simp add: word_less_nat_alt unat_word_ariths)
qed

text \<open>\<open>openDevice\<close> (lines 78-108).\<close>
definition openDevice :: "sdk \<Rightarrow> state \<Rightarrow> outcome \<times> state" where
  "openDevice hw s =
    (let s1 = sdk_called GetVersion s in
     case VRmUsbCamGetVersion hw of
       None \<Rightarrow> (Exited EXIT_FAILURE, VRM_CHECK_log s1)
     | Some libversion \<Rightarrow>
         (let s2 = ros_log INFO ''VR Magic lib has version %d'' s1;
              s3 = ros_log INFO ''Scanning for devices'' s2;
              s4 = sdk_called GetDeviceKeyListSize s3
          in case VRmUsbCamGetDeviceKeyListSize hw of
               None \<Rightarrow> (Exited EXIT_FAILURE, VRM_CHECK_log s4)
             | Some n \<Rightarrow>
                 (let s5 = ros_log INFO ''Found %d devices'' s4;
                      s6 = s5\<lparr>device := None\<rparr>
                  in case openDevice_loop hw n 0 s6 of
                       (Returned, s7) \<Rightarrow>
                         (let s8 = ros_log INFO ''Trying to open device'' s7 in
                          if device s8 = None
                          then (Exited (- 1),
                                ros_log FATAL ''No suitable VRmagic device found!'' s8)
                          else (Returned, ros_log INFO ''Device opened'' s8))
                     | (oc, s7) \<Rightarrow> (oc, s7))))"

section \<open>Format negotiation\<close>

text \<open>\<open>getSourceFormat\<close> (lines 120-132).\<close>
definition getSourceFormat :: "sdk \<Rightarrow> state \<Rightarrow> outcome \<times> state" where
  "getSourceFormat hw s =
    (let s1 = sdk_called (GetSourceFormatEx (portLeft (conf s))) s in
     case VRmUsbCamGetSourceFormatEx hw (portLeft (conf s)) of
       None \<Rightarrow> (Exited EXIT_FAILURE, VRM_CHECK_log s1)
     | Some sourceFormat \<Rightarrow>
         (let s2 = sdk_called (GetStringFromColorFormat (m_color_format sourceFormat)) s1 in
          case VRmUsbCamGetStringFromColorFormat hw (m_color_format sourceFormat) of
            None \<Rightarrow> (Exited EXIT_FAILURE, VRM_CHECK_log s2)
          | Some source_color_format_str \<Rightarrow>
              (Returned, ros_log INFO ''Selected source format: %d x %d (%s)'' s2)))"

text \<open>The loop of lines 137-140, from index \<open>i\<close> on: each entry is written into
  the member \<open>targetFormat\<close>; the loop is left at the first entry of the target
  colour format.\<close>
function setTargetFormat_loop :: "sdk \<Rightarrow> VRmDWORD \<Rightarrow> VRmDWORD \<Rightarrow> state \<Rightarrow> outcome \<times> state" where
  "setTargetFormat_loop hw numberOfTargetFormats i s =
     (if i < numberOfTargetFormats then
        (let s1 = sdk_called (GetTargetFormatListEntryEx2 (portLeft (conf s)) i) s in
         case VRmUsbCamGetTargetFormatListEntryEx2 hw (portLeft (conf s)) i of
           None \<Rightarrow> (Exited EXIT_FAILURE, VRM_CHECK_log s1)
         | Some entry \<Rightarrow>
             (let s2 = s1\<lparr>targetFormat := Some entry\<rparr> in
              if m_color_format entry = TARGET_COLOR_FORMAT then (Returned, s2)
              else setTargetFormat_loop hw numberOfTargetFormats (i + 1) s2))
      else (Returned, s))"
  by pat_completeness auto
termination
proof (relation "measure (\<lambda>(hw, n, i, s). unat n - unat i)")
  show "wf (measure (\<lambda>(hw, n, i, s). unat n - unat i))"
    by simp
next
  fix hw :: sdk and n i :: VRmDWORD and s s2 :: state
  assume "i < n"
  then show "((hw, n, i + 1, s2), (hw, n, i, s))
      \<in> measure (\<lambda>(hw, n, i, s). unat n - unat i)"
    using unsigned_less [of n, where 'a = nat]
    by (simp add: word_less_nat_alt unat_word_ariths)
qed

text \<open>\<open>setTargetFormat\<close> (lines 134-156). The check after the loop reads the
  member \<open>targetFormat\<close>; reading it when nothing was ever assigned to it is
  undefined.\<close>
definition setTargetFormat :: "sdk \<Rightarrow> state \<Rightarrow> outcome \<times> state" where
  "setTargetFormat hw s =
    (let s1 = sdk_called (GetTargetFormatListSizeEx2 (portLeft (conf s))) s in
     case VRmUsbCamGetTargetFormatListSizeEx2 hw (portLeft (conf s)) of
       None \<Rightarrow> (Exited EXIT_FAILURE, VRM_CHECK_log s1)
     | Some numberOfTargetFormats \<Rightarrow>
         (case setTargetFormat_loop hw numberOfTargetFormats 0 s1 of
            (Returned, s2) \<Rightarrow>
              (case targetFormat s2 of
                 None \<Rightarrow> (Undefined, s2)
               | Some tf \<Rightarrow>
                   if m_color_format tf \<noteq> TARGET_COLOR_FORMAT then
                     (let s3 = sdk_called (GetStringFromColorFormat TARGET_COLOR_FORMAT) s2 in
                      case VRmUsbCamGetStringFromColorFormat hw TARGET_COLOR_FORMAT of
                        None \<Rightarrow> (Exited EXIT_FAILURE, VRM_CHECK_log s3)
                      | Some screen_color_format_str \<Rightarrow>
                          (Exited (- 1),
                           ros_log FATAL ''%s not found in target format list.'' s3))
                   else
                     (let s3 = sdk_called (GetStringFromColorFormat (m_color_format tf)) s2 in
                      case VRmUsbCamGetStringFromColorFormat hw (m_color_format tf) of
                        None \<Rightarrow> (Exited EXIT_FAILURE, VRM_CHECK_log s3)
                      | Some targetColorFormatStr \<Rightarrow>
                          (Returned,
                           ros_log INFO ''Selected target format: %d x %d (%s)'' s3)))
          | (oc, s2) \<Rightarrow> (oc, s2)))"

section \<open>Properties: apply\<close>

text \<open>Lines 186-195, shared by the overloads of \<open>setSingleProperty\<close>: \<open>write\<close> is
  the call of the setter of the value's type and \<open>ok\<close> its result, \<open>changed\<close> the
  format string of the log line.\<close>
definition set_if_supported ::
  "sdk \<Rightarrow> VRmPropId \<Rightarrow> sdk_call \<Rightarrow> (VRmPropId option \<Rightarrow> bool) \<Rightarrow> string \<Rightarrow> state \<Rightarrow> outcome \<times> state"
where
  "set_if_supported hw property write ok changed s =
    (let s1 = sdk_called (GetPropertySupported property) s in
     case VRmUsbCamGetPropertySupported hw (sensor_select s) property of
       None \<Rightarrow> (Exited EXIT_FAILURE, VRM_CHECK_log s1)
     | Some supported \<Rightarrow>
         if supported then
           (let s2 = sdk_called write s1 in
            if \<not> ok (sensor_select s1) then (Exited EXIT_FAILURE, VRM_CHECK_log s2)
            else
              (let s3 = sdk_called (GetPropertyInfo property) s2 in
               case VRmUsbCamGetPropertyInfo hw (sensor_select s2) property of
                 None \<Rightarrow> (Exited EXIT_FAILURE, VRM_CHECK_log s3)
               | Some propInfo \<Rightarrow> (Returned, ros_log INFO changed s3)))
         else
           (let s2 = sdk_called (GetPropertyInfo property) s1 in
            case VRmUsbCamGetPropertyInfo hw (sensor_select s1) property of
              None \<Rightarrow> (Exited EXIT_FAILURE, VRM_CHECK_log s2)
            | Some propInfo \<Rightarrow> (Returned, ros_log WARN ''Property '%s' not supported!'' s2)))"

text \<open>\<open>setSingleProperty(int, ...)\<close> (lines 180-196).\<close>
definition setSinglePropertyI :: "sdk \<Rightarrow> cint \<Rightarrow> VRmPropId \<Rightarrow> VRmDWORD \<Rightarrow> state \<Rightarrow> outcome \<times> state" where
  "setSinglePropertyI hw val property port =
     and_then (setSensorActive hw port)
       (set_if_supported hw property (SetPropertyValueI property val)
          (\<lambda>sel. VRmUsbCamSetPropertyValueI hw sel property val) ''%s changed to: %i'')"

text \<open>\<open>setSingleProperty(float, ...)\<close> (lines 198-214).\<close>
definition setSinglePropertyF :: "sdk \<Rightarrow> cfloat \<Rightarrow> VRmPropId \<Rightarrow> VRmDWORD \<Rightarrow> state \<Rightarrow> outcome \<times> state" where
  "setSinglePropertyF hw val property port =
     and_then (setSensorActive hw port)
       (set_if_supported hw property (SetPropertyValueF property val)
          (\<lambda>sel. VRmUsbCamSetPropertyValueF hw sel property val) ''%s changed to: %f ms'')"

text \<open>\<open>setGain\<close> and \<open>setExposure\<close> (lines 165-172), with the template
  \<open>setPropertyLeftAndRight\<close> (lines 174-178) at \<open>int\<close> and at \<open>float\<close>.\<close>
definition setGain :: "sdk \<Rightarrow> state \<Rightarrow> outcome \<times> state" where
  "setGain hw s =
     and_then
       (setSinglePropertyI hw (gainLeft (conf s)) VRM_PROPID_CAM_GAIN_MONOCHROME_I
          (portLeft (conf s)))
       (setSinglePropertyI hw (gainRight (conf s)) VRM_PROPID_CAM_GAIN_MONOCHROME_I
          (portRight (conf s))) s"

definition setExposure :: "sdk \<Rightarrow> state \<Rightarrow> outcome \<times> state" where
  "setExposure hw s =
     and_then
       (setSinglePropertyF hw (exposureLeft (conf s)) VRM_PROPID_CAM_EXPOSURE_TIME_F
          (portLeft (conf s)))
       (setSinglePropertyF hw (exposureRight (conf s)) VRM_PROPID_CAM_EXPOSURE_TIME_F
          (portRight (conf s)))
       (ros_log INFO ''Set exposure'' s)"

section \<open>Properties: sanitize\<close>

text \<open>
  \<open>checkAndSanitizeProperty(int&, ...)\<close> (lines 254-274). The function returns the
  content of the reference \<open>value\<close> at its end. The call that fills \<open>attribs\<close> is
  not checked: when it fails, \<open>attribs\<close> was never written and the comparison
  reads indeterminate values.
\<close>
definition checkAndSanitizePropertyI ::
  "sdk \<Rightarrow> cint \<Rightarrow> VRmPropId \<Rightarrow> string \<Rightarrow> state \<Rightarrow> outcome \<times> cint \<times> state"
where
  "checkAndSanitizePropertyI hw val property name s =
    (let s1 = sdk_called (GetPropertyInfo property) s in
     case VRmUsbCamGetPropertyInfo hw (sensor_select s) property of
       None \<Rightarrow> (Exited EXIT_FAILURE, val, VRM_CHECK_log s1)
     | Some propInfo \<Rightarrow>
         (let s2 = (if VRM_PROP_TYPE_INT \<noteq> m_type propInfo
                    then ros_log ERROR ''Invalid type of property!'' s1 else s1);
              s3 = sdk_called (GetPropertyAttribsI property) s2
          in case VRmUsbCamGetPropertyAttribsI hw (sensor_select s2) property of
               None \<Rightarrow> (Undefined, val, s3)
             | Some attribs \<Rightarrow>
                 if sint val < sint (m_min attribs) \<or> sint val > sint (m_max attribs) then
                   (Returned, m_default attribs,
                    ros_log WARN ''Default will be used for %s: %d''
                      (ros_log WARN
                         ''Invalid value for parameter %s, has to be in [%d,%d], but was: %d''
                         s3))
                 else (Returned, val, s3)))"

text \<open>\<open>checkAndSanitizeProperty(float&, ...)\<close> (lines 276-296).\<close>
definition checkAndSanitizePropertyF ::
  "sdk \<Rightarrow> cfloat \<Rightarrow> VRmPropId \<Rightarrow> string \<Rightarrow> state \<Rightarrow> outcome \<times> cfloat \<times> state"
where
  "checkAndSanitizePropertyF hw val property name s =
    (let s1 = sdk_called (GetPropertyInfo property) s in
     case VRmUsbCamGetPropertyInfo hw (sensor_select s) property of
       None \<Rightarrow> (Exited EXIT_FAILURE, val, VRM_CHECK_log s1)
     | Some propInfo \<Rightarrow>
         (let s2 = (if VRM_PROP_TYPE_FLOAT \<noteq> m_type propInfo
                    then ros_log ERROR ''Invalid type of property!'' s1 else s1);
              s3 = sdk_called (GetPropertyAttribsF property) s2
          in case VRmUsbCamGetPropertyAttribsF hw (sensor_select s2) property of
               None \<Rightarrow> (Undefined, val, s3)
             | Some attribs \<Rightarrow>
                 if float_less val (m_min attribs) \<or> float_less (m_max attribs) val then
                   (Returned, m_default attribs,
                    ros_log WARN ''Default will be used for %s: %f''
                      (ros_log WARN
                         ''Invalid value for parameter %s, has to be in [%f,%f], but was: %f''
                         s3))
                 else (Returned, val, s3)))"

text \<open>\<open>checkAndSanitizeConfig\<close> (lines 238-246): the four calls, each on a field of
  \<open>conf\<close> passed by reference.\<close>
definition sanitize_gainLeft :: "sdk \<Rightarrow> state \<Rightarrow> outcome \<times> state" where
  "sanitize_gainLeft hw s =
     (case checkAndSanitizePropertyI hw (gainLeft (conf s)) VRM_PROPID_CAM_GAIN_MONOCHROME_I
             ''gainLeft'' s of
        (oc, v, s') \<Rightarrow> (oc, s'\<lparr>conf := (conf s')\<lparr>gainLeft := v\<rparr>\<rparr>))"

definition sanitize_gainRight :: "sdk \<Rightarrow> state \<Rightarrow> outcome \<times> state" where
  "sanitize_gainRight hw s =
     (case checkAndSanitizePropertyI hw (gainRight (conf s)) VRM_PROPID_CAM_GAIN_MONOCHROME_I
             ''gainRight'' s of
        (oc, v, s') \<Rightarrow> (oc, s'\<lparr>conf := (conf s')\<lparr>gainRight := v\<rparr>\<rparr>))"

definition sanitize_exposureLeft :: "sdk \<Rightarrow> state \<Rightarrow> outcome \<times> state" where
  "sanitize_exposureLeft hw s =
     (case checkAndSanitizePropertyF hw (exposureLeft (conf s)) VRM_PROPID_CAM_EXPOSURE_TIME_F
             ''exposureLeft'' s of
        (oc, v, s') \<Rightarrow> (oc, s'\<lparr>conf := (conf s')\<lparr>exposureLeft := v\<rparr>\<rparr>))"

definition sanitize_exposureRight :: "sdk \<Rightarrow> state \<Rightarrow> outcome \<times> state" where
  "sanitize_exposureRight hw s =
     (case checkAndSanitizePropertyF hw (exposureRight (conf s)) VRM_PROPID_CAM_EXPOSURE_TIME_F
             ''exposureRight'' s of
        (oc, v, s') \<Rightarrow> (oc, s'\<lparr>conf := (conf s')\<lparr>exposureRight := v\<rparr>\<rparr>))"

definition checkAndSanitizeConfig :: "sdk \<Rightarrow> state \<Rightarrow> outcome \<times> state" where
  "checkAndSanitizeConfig hw =
     and_then (sanitize_gainLeft hw)
       (and_then (sanitize_gainRight hw)
          (and_then (sanitize_exposureLeft hw) (sanitize_exposureRight hw)))"

text \<open>\<open>setProperties\<close> (lines 158-163). \<open>Config.setGain\<close> and
  \<open>Config.setExposure\<close> are the flags in \<open>conf\<close>, \<open>setGain\<close> and \<open>setExposure\<close>
  the member functions.\<close>
definition setProperties :: "sdk \<Rightarrow> state \<Rightarrow> outcome \<times> state" where
  "setProperties hw =
     and_then (checkAndSanitizeConfig hw)
       (and_then (\<lambda>s. if Config.setGain (conf s) then setGain hw s else (Returned, s))
                 (\<lambda>s. if Config.setExposure (conf s) then setExposure hw s
                      else (Returned, s)))"

section \<open>Initialisation\<close>

text \<open>\<open>initCamera\<close> (lines 58-76).\<close>
definition initCamera :: "sdk \<Rightarrow> state \<Rightarrow> outcome \<times> state" where
  "initCamera hw =
     and_then (openDevice hw)
       (and_then (\<lambda>s. setSensorActive hw (portLeft (conf s)) s)
          (and_then (\<lambda>s. setSensorActive hw (portRight (conf s)) s)
             (and_then (getSourceFormat hw)
                (and_then (setTargetFormat hw) (setProperties hw)))))"

section \<open>Reading the events\<close>

text \<open>The keys passed to \<open>VRmUsbCamOpenDevice\<close>, in order.\<close>
fun opened_keys :: "event list \<Rightarrow> VRmDeviceKey list" where
  "opened_keys [] = []"
| "opened_keys (Hw sel (OpenDevice k) # es) = k # opened_keys es"
| "opened_keys (e # es) = opened_keys es"

text \<open>The indices passed to \<open>VRmUsbCamGetDeviceKeyListEntry\<close>, in order.\<close>
fun enumerated :: "event list \<Rightarrow> VRmDWORD list" where
  "enumerated [] = []"
| "enumerated (Hw sel (GetDeviceKeyListEntry i) # es) = i # enumerated es"
| "enumerated (e # es) = enumerated es"

text \<open>Is the call one that writes to the device?\<close>
fun is_write :: "sdk_call \<Rightarrow> bool" where
  "is_write (SetPropertyValueE p v) = True"
| "is_write (SetPropertyValueI p v) = True"
| "is_write (SetPropertyValueF p v) = True"
| "is_write c = False"

text \<open>Is the call one that writes the value of a property other than the sensor
  selection?\<close>
fun is_value_write :: "sdk_call \<Rightarrow> bool" where
  "is_value_write (SetPropertyValueI p v) = True"
| "is_value_write (SetPropertyValueF p v) = True"
| "is_value_write c = False"

text \<open>The calls among the events that satisfy \<open>P\<close>, in order.\<close>
fun calls_where :: "(sdk_call \<Rightarrow> bool) \<Rightarrow> event list \<Rightarrow> sdk_call list" where
  "calls_where P [] = []"
| "calls_where P (Hw sel c # es) = (if P c then c # calls_where P es else calls_where P es)"
| "calls_where P (Log sev msg # es) = calls_where P es"

text \<open>The format strings of the log lines of one severity, in order.\<close>
fun logged :: "severity \<Rightarrow> event list \<Rightarrow> string list" where
  "logged sev [] = []"
| "logged sev (Log sev' msg # es) = (if sev' = sev then msg # logged sev es else logged sev es)"
| "logged sev (Hw sel c # es) = logged sev es"

text \<open>The content of the sensor-select register at each call, in order.\<close>
fun registers :: "event list \<Rightarrow> VRmPropId option list" where
  "registers [] = []"
| "registers (Hw sel c # es) = sel # registers es"
| "registers (Log sev msg # es) = registers es"

section \<open>Concrete devices and inputs\<close>

text \<open>A library every call of which fails.\<close>
definition idle_sdk :: sdk where
  "idle_sdk =
    \<lparr> VRmUsbCamGetVersion = None,
      VRmUsbCamGetDeviceKeyListSize = None,
      VRmUsbCamGetDeviceKeyListEntry = (\<lambda>i. None),
      VRmUsbCamOpenDevice = (\<lambda>k. None),
      VRmUsbCamFreeDeviceKey = (\<lambda>k. False),
      VRmUsbCamSetPropertyValueE = (\<lambda>sel p v. False),
      VRmUsbCamSetPropertyValueI = (\<lambda>sel p v. False),
      VRmUsbCamSetPropertyValueF = (\<lambda>sel p v. False),
      VRmUsbCamGetPropertySupported = (\<lambda>sel p. None),
      VRmUsbCamGetPropertyInfo = (\<lambda>sel p. None),
      VRmUsbCamGetPropertyAttribsI = (\<lambda>sel p. None),
      VRmUsbCamGetPropertyAttribsF = (\<lambda>sel p. None),
      VRmUsbCamGetSourceFormatEx = (\<lambda>port. None),
      VRmUsbCamGetStringFromColorFormat = (\<lambda>cf. None),
      VRmUsbCamGetTargetFormatListSizeEx2 = (\<lambda>port. None),
      VRmUsbCamGetTargetFormatListEntryEx2 = (\<lambda>port i. None),
      VRmUsbCamLockNextImageEx2 = (\<lambda>port t. None),
      VRmUsbCamNewImage = (\<lambda>f. None),
      VRmUsbCamConvertImage = (\<lambda>a b. None),
      VRmUsbCamFreeImage = (\<lambda>i. False),
      VRmUsbCamUnlockNextImage = (\<lambda>i. False) \<rparr>"

definition example_conf :: Config where
  "example_conf =
    \<lparr> portLeft = 1, portRight = 2, gainLeft = 5000, gainRight = 100,
      exposureLeft = Finite 2.5, exposureRight = Finite 2.5,
      setGain = True, setExposure = True, timeout = 5000,
      frameId = ''VRMAGIC'', enableLogging = False \<rparr>"

definition bgr_2x2 :: VRmImageFormat where
  "bgr_2x2 = \<lparr> m_width = 2, m_height = 2, m_color_format = VRM_BGR_3X8 \<rparr>"

definition gray_2x2 :: VRmImageFormat where
  "gray_2x2 = \<lparr> m_width = 2, m_height = 2, m_color_format = VRM_GRAY_8 \<rparr>"

text \<open>A handle after initialisation: device open, target format chosen, the right
  port selected last.\<close>
definition running_state :: state where
  "running_state =
    \<lparr> device = Some 1, conf = example_conf, targetFormat = Some bgr_2x2,
      sensor_select = Some VRM_PROPID_GRAB_SENSOR_PROPS_SELECT_2, trace = [] \<rparr>"

text \<open>A handle as the constructor finds it: nothing opened, selected or assigned.\<close>
definition fresh_state :: state where
  "fresh_state =
    \<lparr> device = None, conf = example_conf, targetFormat = None,
      sensor_select = None, trace = [] \<rparr>"

text \<open>A locked source frame, a new target image, and the converted frame: two rows
  of six bytes, each followed by two bytes of padding (pitch 8).\<close>
definition raw_frame :: VRmImage where
  "raw_frame = \<lparr> m_image_format = gray_2x2, mp_buffer = [9, 9, 9, 9], m_pitch = 2 \<rparr>"

definition blank_frame :: VRmImage where
  "blank_frame = \<lparr> m_image_format = bgr_2x2, mp_buffer = replicate 16 0, m_pitch = 8 \<rparr>"

definition padded_frame :: VRmImage where
  "padded_frame =
    \<lparr> m_image_format = bgr_2x2,
      mp_buffer = [1, 2, 3, 4, 5, 6, 255, 255, 7, 8, 9, 10, 11, 12, 255, 255],
      m_pitch = 8 \<rparr>"

text \<open>The caller's image, holding an earlier frame.\<close>
definition earlier_image :: Image where
  "earlier_image =
    \<lparr> stamp = (7, 0), frame_id = ''VRMAGIC'', height = 1, width = 1,
      encoding = ''bgr8'', step = 3, data = [40, 41, 42] \<rparr>"

text \<open>A camera that delivers \<open>padded_frame\<close>.\<close>
definition streaming_sdk :: sdk where
  "streaming_sdk =
    idle_sdk\<lparr> VRmUsbCamLockNextImageEx2 := (\<lambda>port t. Some (raw_frame, 0)),
              VRmUsbCamNewImage := (\<lambda>f. Some blank_frame),
              VRmUsbCamConvertImage := (\<lambda>a b. Some padded_frame),
              VRmUsbCamFreeImage := (\<lambda>i. True),
              VRmUsbCamUnlockNextImage := (\<lambda>i. True) \<rparr>"

definition gain_info :: VRmPropInfo where
  "gain_info = \<lparr> m_type = VRM_PROP_TYPE_INT, m_description = ''Gain'' \<rparr>"

definition exposure_info :: VRmPropInfo where
  "exposure_info = \<lparr> m_type = VRM_PROP_TYPE_FLOAT, m_description = ''Exposure time'' \<rparr>"

text \<open>A camera whose two sensors differ: the gain of the sensor on port 1 ranges
  over 0..10000, that of the others over 0..1000. The gain is supported, the
  exposure time is not. The setters are typed: the integer setter takes the gain
  only, the floating-point setter the exposure time only.\<close>
definition sensor_sdk :: sdk where
  "sensor_sdk =
    idle_sdk\<lparr> VRmUsbCamSetPropertyValueE := (\<lambda>sel p v. True),
              VRmUsbCamSetPropertyValueI :=
                (\<lambda>sel p v. p = VRM_PROPID_CAM_GAIN_MONOCHROME_I),
              VRmUsbCamSetPropertyValueF :=
                (\<lambda>sel p v. p = VRM_PROPID_CAM_EXPOSURE_TIME_F),
              VRmUsbCamGetPropertySupported :=
                (\<lambda>sel p. Some (p = VRM_PROPID_CAM_GAIN_MONOCHROME_I)),
              VRmUsbCamGetPropertyInfo :=
                (\<lambda>sel p. Some (if p = VRM_PROPID_CAM_GAIN_MONOCHROME_I then gain_info
                                else exposure_info)),
              VRmUsbCamGetPropertyAttribsI :=
                (\<lambda>sel p. Some (if sel = Some VRM_PROPID_GRAB_SENSOR_PROPS_SELECT_1
                                then \<lparr> m_default = 400, m_min = 0, m_max = 10000 \<rparr>
                                else \<lparr> m_default = 500, m_min = 0, m_max = 1000 \<rparr>)),
              VRmUsbCamGetPropertyAttribsF :=
                (\<lambda>sel p. Some \<lparr> m_default = Finite 1, m_min = Finite 0.5,
                                 m_max = Finite 100 \<rparr>) \<rparr>"

text \<open>The same camera with the exposure time supported and the gain not.\<close>
definition exposure_sdk :: sdk where
  "exposure_sdk =
    sensor_sdk\<lparr> VRmUsbCamGetPropertySupported :=
                  (\<lambda>sel p. Some (p = VRM_PROPID_CAM_EXPOSURE_TIME_F)) \<rparr>"

definition busy_key :: VRmDeviceKey where
  "busy_key = \<lparr> m_busy = True, mp_product_str = ''VRmC-9'', mp_manufacturer_str = ''VRmagic'' \<rparr>"

definition camera_key :: VRmDeviceKey where
  "camera_key = \<lparr> m_busy = False, mp_product_str = ''VRmD3'', mp_manufacturer_str = ''VRmagic'' \<rparr>"

definition spare_key :: VRmDeviceKey where
  "spare_key = \<lparr> m_busy = False, mp_product_str = ''VRmC-12'', mp_manufacturer_str = ''VRmagic'' \<rparr>"

text \<open>A stereo camera: three device keys, the first busy; two target formats, the
  second BGR; sensors as in \<open>sensor_sdk\<close>.\<close>
definition stereo_sdk :: sdk where
  "stereo_sdk =
    sensor_sdk\<lparr> VRmUsbCamGetVersion := Some 3,
                VRmUsbCamGetDeviceKeyListSize := Some 3,
                VRmUsbCamGetDeviceKeyListEntry :=
                  (\<lambda>i. if i = 0 then Some busy_key else if i = 1 then Some camera_key
                       else if i = 2 then Some spare_key else None),
                VRmUsbCamOpenDevice := (\<lambda>k. Some 1),
                VRmUsbCamFreeDeviceKey := (\<lambda>k. True),
                VRmUsbCamGetSourceFormatEx := (\<lambda>port. Some gray_2x2),
                VRmUsbCamGetStringFromColorFormat := (\<lambda>cf. Some ''format''),
                VRmUsbCamGetTargetFormatListSizeEx2 := (\<lambda>port. Some 2),
                VRmUsbCamGetTargetFormatListEntryEx2 :=
                  (\<lambda>port i. if i = 0 then Some gray_2x2 else if i = 1 then Some bgr_2x2
                            else None) \<rparr>"

text \<open>The same camera with only its first, busy key listed, and with a failing
  enumeration.\<close>
definition busy_sdk :: sdk where
  "busy_sdk = stereo_sdk\<lparr> VRmUsbCamGetDeviceKeyListSize := Some 1 \<rparr>"

definition unplugged_sdk :: sdk where
  "unplugged_sdk = stereo_sdk\<lparr> VRmUsbCamGetDeviceKeyListSize := None \<rparr>"

text \<open>A camera that reports an empty list of target formats.\<close>
definition no_formats_sdk :: sdk where
  "no_formats_sdk = stereo_sdk\<lparr> VRmUsbCamGetTargetFormatListSizeEx2 := (\<lambda>port. Some 0) \<rparr>"

section \<open>Properties of frame acquisition\<close>

subsection \<open>Index arithmetic without wrap-around\<close>

lemma unat_succ: "x < (b::32 word) \<Longrightarrow> unat (x + 1) = Suc (unat x)"
  using unsigned_less [of b, where 'a = nat]
  by (simp add: word_less_nat_alt unat_word_ariths)

lemma unat_row_index:
  fixes y p x :: "32 word"
  assumes "unat y * unat p + unat x < 2 ^ 32"
  shows "unat (y * p + x) = unat y * unat p + unat x"
proof -
  have "unat y * unat p < 2 ^ 32" using assms by simp
  then have m: "unat (y * p) = unat y * unat p"
    using unat_mult_lem [of y p] by simp
  with assms have "unat (y * p) + unat x < 2 ^ 32" by simp
  then have "unat (y * p + x) = unat (y * p) + unat x"
    using unat_add_lem [of "y * p" x] by simp
  with m show ?thesis by simp
qed

lemma unat_times3:
  fixes w :: "32 word"
  assumes "unat w * 3 < 2 ^ 32"
  shows "unat (w * 3) = unat w * 3"
  using assms unat_mult_lem [of w 3] by simp

lemma unat_out_index:
  fixes y w x :: "32 word"
  assumes w: "unat w * 3 < 2 ^ 32" and "unat y * (unat w * 3) + unat x < 2 ^ 32"
  shows "unat (y * w * 3 + x) = unat y * (unat w * 3) + unat x"
proof -
  have "unat (y * w * 3 + x) = unat (y * (w * 3) + x)"
    by (simp add: mult.assoc)
  also have "\<dots> = unat y * unat (w * 3) + unat x"
    using unat_row_index [of y "w * 3" x] assms unat_times3 [OF w] by simp
  finally show ?thesis using unat_times3 [OF w] by simp
qed

subsection \<open>The copy loops\<close>

lemma copy_row_spec:
  assumes W: "unat w * 3 < 2 ^ 32"
    and dst: "unat y * (unat w * 3) + unat w * 3 \<le> length d" "length d < 2 ^ 32"
    and src: "unat y * unat pitch + unat w * 3 \<le> length buf" "length buf < 2 ^ 32"
  shows "\<exists>d'. copy_row buf pitch w y x d = Some d' \<and> length d' = length d \<and>
      (\<forall>c. unat x \<le> c \<and> c < unat w * 3 \<longrightarrow>
           d' ! (unat y * (unat w * 3) + c) = buf ! (unat y * unat pitch + c)) \<and>
      (\<forall>i. i < unat y * (unat w * 3) + unat x \<or> unat y * (unat w * 3) + unat w * 3 \<le> i \<longrightarrow>
           d' ! i = d ! i)"
  using assms
proof (induction buf pitch w y x d rule: copy_row.induct)
  case (1 buf pitch w y x d)
  show ?case
  proof (cases "x < w * 3")
    case False
    then have "unat w * 3 \<le> unat x"
      using unat_times3 [OF "1.prems"(1)] by (simp add: word_less_nat_alt)
    with False show ?thesis by auto
  next
    case True
    then have xlt: "unat x < unat w * 3"
      using unat_times3 [OF "1.prems"(1)] by (simp add: word_less_nat_alt)
    let ?dst = "unat y * (unat w * 3) + unat x"
    let ?src = "unat y * unat pitch + unat x"
    have dsteq: "unat (y * w * 3 + x) = ?dst"
      using unat_out_index [of w y x] "1.prems" xlt by simp
    have srceq: "unat (y * pitch + x) = ?src"
      using unat_row_index [of y pitch x] "1.prems" xlt by simp
    have inr: "?dst < length d" "?src < length buf"
      using "1.prems" xlt by simp_all
    let ?d1 = "d[?dst := buf ! ?src]"
    have sx: "unat (x + 1) = Suc (unat x)" using True by (rule unat_succ)
    have "\<exists>d'. copy_row buf pitch w y (x + 1) ?d1 = Some d' \<and> length d' = length ?d1 \<and>
      (\<forall>c. unat (x + 1) \<le> c \<and> c < unat w * 3 \<longrightarrow>
           d' ! (unat y * (unat w * 3) + c) = buf ! (unat y * unat pitch + c)) \<and>
      (\<forall>i. i < unat y * (unat w * 3) + unat (x + 1) \<or> unat y * (unat w * 3) + unat w * 3 \<le> i \<longrightarrow>
           d' ! i = ?d1 ! i)"
      using "1.IH" [of ?dst ?src] True dsteq srceq inr "1.prems" by simp
    then obtain d' where d': "copy_row buf pitch w y (x + 1) ?d1 = Some d'"
      "length d' = length d"
      "\<And>c. Suc (unat x) \<le> c \<Longrightarrow> c < unat w * 3 \<Longrightarrow>
           d' ! (unat y * (unat w * 3) + c) = buf ! (unat y * unat pitch + c)"
      "\<And>i. i < Suc ?dst \<or> unat y * (unat w * 3) + unat w * 3 \<le> i \<Longrightarrow> d' ! i = ?d1 ! i"
      using sx by auto
    have run: "copy_row buf pitch w y x d = Some d'"
      using True dsteq srceq inr d'(1) by (subst copy_row.simps) simp
    have here: "d' ! ?dst = buf ! ?src"
      using d'(4) [of ?dst] inr by simp
    have cols: "d' ! (unat y * (unat w * 3) + c) = buf ! (unat y * unat pitch + c)"
      if "unat x \<le> c" "c < unat w * 3" for c
    proof (cases "c = unat x")
      case True
      then show ?thesis using here by simp
    next
      case False
      then show ?thesis using d'(3) [of c] that by simp
    qed
    have rest: "d' ! i = d ! i"
      if "i < ?dst \<or> unat y * (unat w * 3) + unat w * 3 \<le> i" for i
      using d'(4) [of i] that xlt by auto
    show ?thesis using run d'(2) cols rest by blast
  qed
qed


lemma copy_rows_spec:
  assumes W: "unat w * 3 < 2 ^ 32"
    and dst: "unat h * (unat w * 3) \<le> length d" "length d < 2 ^ 32"
    and src: "\<forall>r<unat h. r * unat pitch + unat w * 3 \<le> length buf" "length buf < 2 ^ 32"
  shows "\<exists>d'. copy_rows buf pitch w h y d = Some d' \<and> length d' = length d \<and>
      (\<forall>r c. unat y \<le> r \<and> r < unat h \<and> c < unat w * 3 \<longrightarrow>
           d' ! (r * (unat w * 3) + c) = buf ! (r * unat pitch + c)) \<and>
      (\<forall>i. i < unat y * (unat w * 3) \<or> unat h * (unat w * 3) \<le> i \<longrightarrow> d' ! i = d ! i)"
  using assms
proof (induction buf pitch w h y d rule: copy_rows.induct)
  case (1 buf pitch w h y d)
  show ?case
  proof (cases "y < h")
    case False
    then have "unat h \<le> unat y" by (simp add: word_less_nat_alt)
    with False show ?thesis by auto
  next
    case True
    then have ylt: "unat y < unat h" by (simp add: word_less_nat_alt)
    have sy: "unat (y + 1) = Suc (unat y)" using True by (rule unat_succ)
    let ?W = "unat w * 3"
    have rows: "Suc (unat y) * ?W \<le> unat h * ?W"
      using ylt by (intro mult_le_mono1) simp
    then have below: "unat y * ?W + ?W \<le> length d"
      using "1.prems"(2) by simp
    have srcrow: "unat y * unat pitch + ?W \<le> length buf"
      using "1.prems"(4) ylt by simp
    from copy_row_spec [OF "1.prems"(1) below "1.prems"(3) srcrow "1.prems"(5), of 0]
    obtain d1 where r1: "copy_row buf pitch w y 0 d = Some d1"
      and l1: "length d1 = length d"
      and c1: "\<forall>c. unat (0 :: 32 word) \<le> c \<and> c < ?W \<longrightarrow>
                 d1 ! (unat y * ?W + c) = buf ! (unat y * unat pitch + c)"
      and o1: "\<forall>i. i < unat y * ?W + unat (0 :: 32 word) \<or> unat y * ?W + ?W \<le> i \<longrightarrow>
                 d1 ! i = d ! i"
      by blast
    have p2: "unat h * ?W \<le> length d1" and p3: "length d1 < 2 ^ 32"
      using "1.prems"(2,3) l1 by simp_all
    from "1.IH" [OF True r1 "1.prems"(1) p2 p3 "1.prems"(4,5)]
    obtain d' where r2: "copy_rows buf pitch w h (y + 1) d1 = Some d'"
      and l2: "length d' = length d1"
      and c2: "\<forall>r c. unat (y + 1) \<le> r \<and> r < unat h \<and> c < ?W \<longrightarrow>
                 d' ! (r * ?W + c) = buf ! (r * unat pitch + c)"
      and o2: "\<forall>i. i < unat (y + 1) * ?W \<or> unat h * ?W \<le> i \<longrightarrow> d' ! i = d1 ! i"
      by blast
    have run: "copy_rows buf pitch w h y d = Some d'"
      using True r1 r2 by (subst copy_rows.simps) simp
    have cells: "d' ! (r * ?W + c) = buf ! (r * unat pitch + c)"
      if "unat y \<le> r" "r < unat h" "c < ?W" for r c
    proof (cases "r = unat y")
      case True
      have "unat y * ?W + c < unat (y + 1) * ?W" using that(3) sy by simp
      then have "d' ! (unat y * ?W + c) = d1 ! (unat y * ?W + c)"
        using o2 by blast
      moreover have "d1 ! (unat y * ?W + c) = buf ! (unat y * unat pitch + c)"
        using c1 that(3) by simp
      ultimately show ?thesis using True by simp
    next
      case False
      then have "unat (y + 1) \<le> r" using that(1) sy by simp
      then show ?thesis using c2 that(2,3) by blast
    qed
    have rest: "d' ! i = d ! i" if "i < unat y * ?W \<or> unat h * ?W \<le> i" for i
    proof -
      have "i < unat (y + 1) * ?W \<or> unat h * ?W \<le> i" using that sy by auto
      then have "d' ! i = d1 ! i" using o2 by blast
      moreover have "i < unat y * ?W + unat (0 :: 32 word) \<or> unat y * ?W + ?W \<le> i"
        using that rows by auto
      then have "d1 ! i = d ! i" using o1 by blast
      ultimately show ?thesis by simp
    qed
    show ?thesis using run l1 l2 cells rest by auto
  qed
qed


lemma length_resize: "length (resize n xs) = n"
  by (simp add: resize_def)

text \<open>
  Claim C1. When the lock succeeds and the frame is produced (the checked library
  calls succeed), and the converted image is well formed (a row of \<open>width \<times> 3\<close> bytes
  fits in the pitch, the buffer holds \<open>height\<close> rows of \<open>pitch\<close> bytes and is
  addressable with 32-bit indices), \<open>grabFrame\<close> returns an image with
  \<open>step = width \<times> 3\<close>, a buffer of \<open>height \<times> step\<close> bytes, and the byte at
  \<open>y \<times> (width \<times> 3) + x\<close> equal to the converted image's byte at \<open>y \<times> pitch + x\<close>,
  for every row \<open>y < height\<close> and offset \<open>x < width \<times> 3\<close>: no padding byte is copied.
\<close>
theorem grabFrame_packs_rows:
  assumes lock: "VRmUsbCamLockNextImageEx2 hw port (timeout (conf s)) = Some (sourceImg, dropped)"
    and fmt: "targetFormat s = Some tf"
    and new: "VRmUsbCamNewImage hw tf = Some newImage"
    and conv: "VRmUsbCamConvertImage hw sourceImg newImage = Some targetImage"
    and free: "VRmUsbCamFreeImage hw targetImage"
    and unlock: "VRmUsbCamUnlockNextImage hw sourceImg"
    and row: "unat (m_width (m_image_format targetImage)) * 3 \<le> unat (m_pitch targetImage)"
    and buf: "unat (m_height (m_image_format targetImage)) * unat (m_pitch targetImage)
                \<le> length (mp_buffer targetImage)"
    and addr: "length (mp_buffer targetImage) < 2 ^ 32"
  shows "\<exists>img' s'. grabFrame hw port img triggerTime s = (Returned, img', s') \<and>
      width img' = m_width (m_image_format targetImage) \<and>
      height img' = m_height (m_image_format targetImage) \<and>
      unat (step img') = unat (width img') * 3 \<and>
      length (data img') = unat (height img') * unat (step img') \<and>
      (\<forall>y<unat (height img'). \<forall>x<unat (width img') * 3.
         data img' ! (y * (unat (width img') * 3) + x)
           = mp_buffer targetImage ! (y * unat (m_pitch targetImage) + x))"
proof -
  let ?w = "m_width (m_image_format targetImage)"
  let ?h = "m_height (m_image_format targetImage)"
  let ?p = "m_pitch targetImage"
  let ?b = "mp_buffer targetImage"
  let ?W = "unat ?w * 3"
  let ?img = "fill_image targetImage triggerTime (frameId (conf s)) img"
  have plt: "unat ?p < 2 ^ 32" using unsigned_less [of ?p, where 'a = nat] by simp
  have W: "?W < 2 ^ 32" using row plt by simp
  have step3: "unat (?w * 3) = ?W" using W by (rule unat_times3)
  have HW: "unat ?h * ?W \<le> unat ?h * unat ?p" using row by (rule mult_le_mono2)
  have HWlt: "unat ?h * ?W < 2 ^ 32"
    using HW buf addr by (meson le_less_trans le_trans)
  have size: "unat (?h * (?w * 3)) = unat ?h * ?W"
    using unat_mult_lem [of ?h "?w * 3"] step3 HWlt by simp
  have fw: "width ?img = ?w" and fh: "height ?img = ?h" and fs: "step ?img = ?w * 3"
    by (simp_all add: fill_image_def Let_def)
  have fl: "length (data ?img) = unat ?h * ?W"
    by (simp add: fill_image_def Let_def length_resize size)
  have srcrows: "\<forall>r<unat ?h. r * unat ?p + ?W \<le> length ?b"
  proof (intro allI impI)
    fix r assume "r < unat ?h"
    then have "Suc r * unat ?p \<le> unat ?h * unat ?p" by (intro mult_le_mono1) simp
    then show "r * unat ?p + ?W \<le> length ?b" using row buf by simp
  qed
  have d1: "unat ?h * ?W \<le> length (data ?img)" and d2: "length (data ?img) < 2 ^ 32"
    using fl HWlt by simp_all
  from copy_rows_spec [OF W d1 d2 srcrows addr, of 0]
  obtain d' where r: "copy_rows ?b ?p ?w ?h 0 (data ?img) = Some d'"
    and l: "length d' = length (data ?img)"
    and c: "\<forall>r c. unat (0 :: 32 word) \<le> r \<and> r < unat ?h \<and> c < ?W \<longrightarrow>
              d' ! (r * ?W + c) = ?b ! (r * unat ?p + c)"
    by blast
  let ?s = "sdk_called (UnlockNextImage sourceImg) (sdk_called (FreeImage targetImage)
         (sdk_called (ConvertImage sourceImg newImage) (sdk_called (NewImage tf)
           (sdk_called (LockNextImageEx2 port (timeout (conf s))) s))))"
  have rel: "repack_and_release hw sourceImg targetImage ?img st
      = (Returned, ?img\<lparr>data := d'\<rparr>,
         sdk_called (UnlockNextImage sourceImg) (sdk_called (FreeImage targetImage) st))" for st
    using r free unlock by (simp add: repack_and_release_def fw fh Let_def)
  have run: "grabFrame hw port img triggerTime s = (Returned, ?img\<lparr>data := d'\<rparr>, ?s)"
    using lock fmt new conv by (simp add: grabFrame_def Let_def sdk_called_def rel)
  have cells: "\<forall>y<unat ?h. \<forall>x<?W. d' ! (y * ?W + x) = ?b ! (y * unat ?p + x)"
    using c by simp
  let ?out = "?img\<lparr>data := d'\<rparr>"
  have "grabFrame hw port img triggerTime s = (Returned, ?out, ?s) \<and>
      width ?out = ?w \<and> height ?out = ?h \<and>
      unat (step ?out) = unat (width ?out) * 3 \<and>
      length (data ?out) = unat (height ?out) * unat (step ?out) \<and>
      (\<forall>y<unat (height ?out). \<forall>x<unat (width ?out) * 3.
         data ?out ! (y * (unat (width ?out) * 3) + x) = ?b ! (y * unat ?p + x))"
    using run fw fh fs fl l cells step3 by simp
  then show ?thesis
    by (intro exI [of _ ?out] exI [of _ ?s])
qed



theorem grabFrame_packs_rows_witness:
  "\<exists>img' s'. grabFrame streaming_sdk 1 earlier_image (10, 0) running_state = (Returned, img', s') \<and>
      width img' = 2 \<and> height img' = 2 \<and> unat (step img') = 6 \<and> length (data img') = 12 \<and>
      (\<forall>y<2. \<forall>x<6. data img' ! (y * 6 + x) = mp_buffer padded_frame ! (y * 8 + x))"
proof -
  have "\<exists>img' s'. grabFrame streaming_sdk 1 earlier_image (10, 0) running_state = (Returned, img', s') \<and>
      width img' = m_width (m_image_format padded_frame) \<and>
      height img' = m_height (m_image_format padded_frame) \<and>
      unat (step img') = unat (width img') * 3 \<and>
      length (data img') = unat (height img') * unat (step img') \<and>
      (\<forall>y<unat (height img'). \<forall>x<unat (width img') * 3.
         data img' ! (y * (unat (width img') * 3) + x)
           = mp_buffer padded_frame ! (y * unat (m_pitch padded_frame) + x))"
    by (rule grabFrame_packs_rows [where sourceImg = raw_frame and dropped = 0
          and tf = bgr_2x2 and newImage = blank_frame])
       (simp_all add: streaming_sdk_def idle_sdk_def running_state_def padded_frame_def
          bgr_2x2_def)
  then show ?thesis
    by (auto simp: padded_frame_def bgr_2x2_def)
qed

text \<open>The same frame, computed: the twelve pixel bytes, without the four padding
  bytes.\<close>
lemma grabFrame_streaming_example:
  "fst (snd (grabFrame streaming_sdk 1 earlier_image (10, 0) running_state)) =
     \<lparr> stamp = (10, 0), frame_id = ''VRMAGIC'', height = 2, width = 2,
       encoding = ''bgr8'', step = 6, data = [1, 2, 3, 4, 5, 6, 7, 8, 9, 10, 11, 12] \<rparr>"
  by code_simp

text \<open>
  Claim C3, at a lock that times out. The claim has the process terminate there;
  \<open>grabFrame\<close> logs at severity FATAL and returns to its caller, the process
  goes on. (No retry is made and no frame is allocated: the only call is the lock.)
\<close>
theorem grabFrame_lock_failure_returns:
  "grabFrame idle_sdk 1 earlier_image (10, 0) running_state =
     (Returned, earlier_image,
      running_state\<lparr>trace :=
        [Hw (Some VRM_PROPID_GRAB_SENSOR_PROPS_SELECT_2) (LockNextImageEx2 1 5000),
         Log FATAL ''Could not lock image: %s'']\<rparr>)"
  by (simp add: grabFrame_def idle_sdk_def running_state_def sdk_called_def ros_log_def
      example_conf_def)

text \<open>
  Claim C10. When the lock fails, the caller's image comes back as it went in: no
  field of it is written.
\<close>
theorem grabFrame_lock_failure_keeps_image:
  assumes "VRmUsbCamLockNextImageEx2 hw port (timeout (conf s)) = None"
  shows "fst (snd (grabFrame hw port img triggerTime s)) = img"
  using assms by (simp add: grabFrame_def Let_def)

theorem grabFrame_lock_failure_keeps_image_witness:
  "VRmUsbCamLockNextImageEx2 idle_sdk 1 (timeout (conf running_state)) = None
    \<and> fst (snd (grabFrame idle_sdk 1 earlier_image (10, 0) running_state)) = earlier_image"
  using grabFrame_lock_failure_keeps_image [of idle_sdk 1 running_state earlier_image "(10, 0)"]
  by (simp add: idle_sdk_def)

section \<open>Properties of sanitization\<close>

lemma logged_append: "logged sev (xs @ ys) = logged sev xs @ logged sev ys"
  by (induction sev xs rule: logged.induct) simp_all











section \<open>Properties of port selection and of applying a property\<close>

lemma calls_where_append: "calls_where P (xs @ ys) = calls_where P xs @ calls_where P ys"
  by (induction P xs rule: calls_where.induct) simp_all

lemma registers_append: "registers (xs @ ys) = registers xs @ registers ys"
  by (induction xs rule: registers.induct) simp_all

lemma portnumToPropId_Some:
  assumes "fst (portnumToPropId port s) = Some sensorProp"
  shows "portnumToPropId port s = (Some sensorProp, s)"
  using assms by (simp add: portnumToPropId_def split: if_splits)

lemma portnumToPropId_valid:
  "(\<exists>sensorProp. fst (portnumToPropId port s) = Some sensorProp)
     \<longleftrightarrow> port = 1 \<or> port = 2 \<or> port = 3 \<or> port = 4"
  by (simp add: portnumToPropId_def)

lemma setSensorActive_run:
  assumes "fst (portnumToPropId port s) = Some sensorProp"
  shows "setSensorActive hw port s =
    (Returned,
     s\<lparr>trace := trace s @
          [Hw (sensor_select s)
             (SetPropertyValueE VRM_PROPID_GRAB_SENSOR_PROPS_SELECT_E sensorProp)],
       sensor_select :=
          (if VRmUsbCamSetPropertyValueE hw (sensor_select s)
                VRM_PROPID_GRAB_SENSOR_PROPS_SELECT_E sensorProp
           then Some sensorProp else sensor_select s)\<rparr>)"
  using portnumToPropId_Some [OF assms]
  by (simp add: setSensorActive_def write_enum_property_def sdk_called_def Let_def)

text \<open>For each port from 1 to 4 the mapping yields that port's select property, and
  \<open>setSensorActive\<close> writes it to the device and returns.\<close>
lemma setSensorActive_valid_port:
  assumes "port = 1 \<or> port = 2 \<or> port = 3 \<or> port = 4"
  shows "\<exists>sensorProp. fst (portnumToPropId port s) = Some sensorProp \<and>
     sensorProp \<in> {VRM_PROPID_GRAB_SENSOR_PROPS_SELECT_1, VRM_PROPID_GRAB_SENSOR_PROPS_SELECT_2,
        VRM_PROPID_GRAB_SENSOR_PROPS_SELECT_3, VRM_PROPID_GRAB_SENSOR_PROPS_SELECT_4} \<and>
     fst (setSensorActive hw port s) = Returned \<and>
     trace (snd (setSensorActive hw port s)) = trace s @
       [Hw (sensor_select s)
          (SetPropertyValueE VRM_PROPID_GRAB_SENSOR_PROPS_SELECT_E sensorProp)]"
proof -
  from assms obtain sensorProp where p: "fst (portnumToPropId port s) = Some sensorProp"
    using portnumToPropId_valid [of port s] by blast
  have "sensorProp \<in> {VRM_PROPID_GRAB_SENSOR_PROPS_SELECT_1,
      VRM_PROPID_GRAB_SENSOR_PROPS_SELECT_2, VRM_PROPID_GRAB_SENSOR_PROPS_SELECT_3,
      VRM_PROPID_GRAB_SENSOR_PROPS_SELECT_4}"
    using p by (auto simp: portnumToPropId_def split: if_splits)
  then show ?thesis
    using p by (simp add: setSensorActive_run [OF p])
qed

text \<open>
  Claim C4, at port 5. The claim has the activation of a port outside 1-4 rejected as
  a fatal error before any write. \<open>portnumToPropId\<close> logs at severity FATAL and
  does not end the process: control flows off the end of the function, and
  \<open>setSensorActive\<close> goes on with a value that was never returned, which is
  undefined behaviour, not an exit.
\<close>
theorem setSensorActive_invalid_port_undefined:
  "setSensorActive hw 5 s = (Undefined, ros_log FATAL ''Cannot convert port to prop id: %d'' s)"
  by (simp add: setSensorActive_def portnumToPropId_def)

lemma setSensorActive_invalid_port:
  assumes "port \<noteq> 1" "port \<noteq> 2" "port \<noteq> 3" "port \<noteq> 4"
  shows "setSensorActive hw port s
    = (Undefined, ros_log FATAL ''Cannot convert port to prop id: %d'' s)"
  using assms by (simp add: setSensorActive_def portnumToPropId_def)

lemma set_if_supported_unsupported:
  assumes "VRmUsbCamGetPropertySupported hw (sensor_select s) property = Some False"
    and "VRmUsbCamGetPropertyInfo hw (sensor_select s) property = Some propInfo"
  shows "set_if_supported hw property write ok changed s =
    (Returned, s\<lparr>trace := trace s @
       [Hw (sensor_select s) (GetPropertySupported property),
        Hw (sensor_select s) (GetPropertyInfo property),
        Log WARN ''Property '%s' not supported!'']\<rparr>)"
  using assms by (simp add: set_if_supported_def Let_def sdk_called_def ros_log_def)

lemma set_if_supported_supported:
  assumes "VRmUsbCamGetPropertySupported hw (sensor_select s) property = Some True"
    and "ok (sensor_select s)"
    and "VRmUsbCamGetPropertyInfo hw (sensor_select s) property = Some propInfo"
  shows "set_if_supported hw property write ok changed s =
    (Returned, s\<lparr>trace := trace s @
       [Hw (sensor_select s) (GetPropertySupported property),
        Hw (sensor_select s) write,
        Hw (sensor_select s) (GetPropertyInfo property),
        Log INFO changed]\<rparr>)"
  using assms by (simp add: set_if_supported_def Let_def sdk_called_def ros_log_def)



text \<open>One overload of \<open>setSingleProperty\<close> on a property that the selected sensor
  does not support, and on one that it supports.\<close>
lemma apply_unsupported:
  assumes sel: "fst (portnumToPropId port s) = Some sensorProp"
    and s1: "s1 = snd (setSensorActive hw port s)"
    and sup: "VRmUsbCamGetPropertySupported hw (sensor_select s1) property = Some False"
    and info: "VRmUsbCamGetPropertyInfo hw (sensor_select s1) property \<noteq> None"
    and r: "(out, s') =
        and_then (setSensorActive hw port) (set_if_supported hw property write wok changed) s"
  shows "out = Returned \<and>
    device s' = device s \<and> conf s' = conf s \<and> targetFormat s' = targetFormat s \<and>
    calls_where is_value_write (trace s') = calls_where is_value_write (trace s) \<and>
    logged WARN (trace s') = logged WARN (trace s) @ [''Property '%s' not supported!'']"
proof -
  have act: "setSensorActive hw port s = (Returned, s1)"
    using setSensorActive_run [OF sel, of hw] s1 by simp
  have t1: "trace s1 = trace s @
      [Hw (sensor_select s)
         (SetPropertyValueE VRM_PROPID_GRAB_SENSOR_PROPS_SELECT_E sensorProp)]"
    and k1: "device s1 = device s" "conf s1 = conf s" "targetFormat s1 = targetFormat s"
    using setSensorActive_run [OF sel, of hw] s1 by simp_all
  obtain propInfo where i: "VRmUsbCamGetPropertyInfo hw (sensor_select s1) property = Some propInfo"
    using info by auto
  have "(out, s') = set_if_supported hw property write wok changed s1"
    using r act by (simp add: and_then_def)
  then show ?thesis
    using t1 k1
    by (simp add: set_if_supported_unsupported [OF sup i] calls_where_append logged_append)
qed

lemma apply_supported:
  assumes sel: "fst (portnumToPropId port s) = Some sensorProp"
    and s1: "s1 = snd (setSensorActive hw port s)"
    and sup: "VRmUsbCamGetPropertySupported hw (sensor_select s1) property = Some True"
    and w: "wok (sensor_select s1)"
    and vw: "is_value_write write"
    and info: "VRmUsbCamGetPropertyInfo hw (sensor_select s1) property \<noteq> None"
    and r: "(out, s') =
        and_then (setSensorActive hw port) (set_if_supported hw property write wok changed) s"
  shows "out = Returned \<and>
    device s' = device s \<and> conf s' = conf s \<and> targetFormat s' = targetFormat s \<and>
    calls_where is_value_write (trace s') = calls_where is_value_write (trace s) @ [write] \<and>
    logged INFO (trace s') = logged INFO (trace s) @ [changed]"
proof -
  have act: "setSensorActive hw port s = (Returned, s1)"
    using setSensorActive_run [OF sel, of hw] s1 by simp
  have t1: "trace s1 = trace s @
      [Hw (sensor_select s)
         (SetPropertyValueE VRM_PROPID_GRAB_SENSOR_PROPS_SELECT_E sensorProp)]"
    and k1: "device s1 = device s" "conf s1 = conf s" "targetFormat s1 = targetFormat s"
    using setSensorActive_run [OF sel, of hw] s1 by simp_all
  obtain propInfo where i: "VRmUsbCamGetPropertyInfo hw (sensor_select s1) property = Some propInfo"
    using info by auto
  have "(out, s') = set_if_supported hw property write wok changed s1"
    using r act by (simp add: and_then_def)
  then show ?thesis
    using t1 k1 vw
    by (simp add: set_if_supported_supported [where ok = wok, OF sup w i]
        calls_where_append logged_append)
qed

text \<open>
  Claim C7. For a port from 1 to 4 and for each overload on its own (\<open>int\<close> on the
  property \<open>propI\<close>, \<open>float\<close> on the property \<open>propF\<close>), with the support query and
  the info query answered: when the hardware reports the property unsupported,
  \<open>setSingleProperty\<close> writes no value, logs the warning and returns, leaving the
  handle as it was; when it reports it supported (and the write of that overload
  succeeds), the value is written with the setter of its type (\<open>SetPropertyValueI\<close>
  for \<open>int\<close>, \<open>SetPropertyValueF\<close> for \<open>float\<close>) and the change is logged.
\<close>
theorem setSingleProperty_supported_or_skipped:
  assumes sel: "fst (portnumToPropId port s) = Some sensorProp"
    and s1: "s1 = snd (setSensorActive hw port s)"
    and ri: "(outI, sI) = setSinglePropertyI hw vi propI port s"
    and rf: "(outF, sF) = setSinglePropertyF hw vf propF port s"
  shows "(VRmUsbCamGetPropertySupported hw (sensor_select s1) propI = Some False \<and>
      VRmUsbCamGetPropertyInfo hw (sensor_select s1) propI \<noteq> None \<longrightarrow>
        outI = Returned \<and>
        device sI = device s \<and> conf sI = conf s \<and> targetFormat sI = targetFormat s \<and>
        calls_where is_value_write (trace sI) = calls_where is_value_write (trace s) \<and>
        logged WARN (trace sI) = logged WARN (trace s) @ [''Property '%s' not supported!'']) \<and>
    (VRmUsbCamGetPropertySupported hw (sensor_select s1) propI = Some True \<and>
      VRmUsbCamSetPropertyValueI hw (sensor_select s1) propI vi \<and>
      VRmUsbCamGetPropertyInfo hw (sensor_select s1) propI \<noteq> None \<longrightarrow>
        outI = Returned \<and>
        device sI = device s \<and> conf sI = conf s \<and> targetFormat sI = targetFormat s \<and>
        calls_where is_value_write (trace sI)
          = calls_where is_value_write (trace s) @ [SetPropertyValueI propI vi] \<and>
        logged INFO (trace sI) = logged INFO (trace s) @ [''%s changed to: %i'']) \<and>
    (VRmUsbCamGetPropertySupported hw (sensor_select s1) propF = Some False \<and>
      VRmUsbCamGetPropertyInfo hw (sensor_select s1) propF \<noteq> None \<longrightarrow>
        outF = Returned \<and>
        device sF = device s \<and> conf sF = conf s \<and> targetFormat sF = targetFormat s \<and>
        calls_where is_value_write (trace sF) = calls_where is_value_write (trace s) \<and>
        logged WARN (trace sF) = logged WARN (trace s) @ [''Property '%s' not supported!'']) \<and>
    (VRmUsbCamGetPropertySupported hw (sensor_select s1) propF = Some True \<and>
      VRmUsbCamSetPropertyValueF hw (sensor_select s1) propF vf \<and>
      VRmUsbCamGetPropertyInfo hw (sensor_select s1) propF \<noteq> None \<longrightarrow>
        outF = Returned \<and>
        device sF = device s \<and> conf sF = conf s \<and> targetFormat sF = targetFormat s \<and>
        calls_where is_value_write (trace sF)
          = calls_where is_value_write (trace s) @ [SetPropertyValueF propF vf] \<and>
        logged INFO (trace sF) = logged INFO (trace s) @ [''%s changed to: %f ms''])"
proof -
  note ri' = ri [unfolded setSinglePropertyI_def]
  note rf' = rf [unfolded setSinglePropertyF_def]
  have a: "VRmUsbCamGetPropertySupported hw (sensor_select s1) propI = Some False \<and>
      VRmUsbCamGetPropertyInfo hw (sensor_select s1) propI \<noteq> None \<longrightarrow>
        outI = Returned \<and>
        device sI = device s \<and> conf sI = conf s \<and> targetFormat sI = targetFormat s \<and>
        calls_where is_value_write (trace sI) = calls_where is_value_write (trace s) \<and>
        logged WARN (trace sI) = logged WARN (trace s) @ [''Property '%s' not supported!'']"
    using apply_unsupported [OF sel s1 _ _ ri'] by blast
  have b: "VRmUsbCamGetPropertySupported hw (sensor_select s1) propI = Some True \<and>
      VRmUsbCamSetPropertyValueI hw (sensor_select s1) propI vi \<and>
      VRmUsbCamGetPropertyInfo hw (sensor_select s1) propI \<noteq> None \<longrightarrow>
        outI = Returned \<and>
        device sI = device s \<and> conf sI = conf s \<and> targetFormat sI = targetFormat s \<and>
        calls_where is_value_write (trace sI)
          = calls_where is_value_write (trace s) @ [SetPropertyValueI propI vi] \<and>
        logged INFO (trace sI) = logged INFO (trace s) @ [''%s changed to: %i'']"
    using apply_supported [OF sel s1 _ _ _ _ ri'] by simp
  have c: "VRmUsbCamGetPropertySupported hw (sensor_select s1) propF = Some False \<and>
      VRmUsbCamGetPropertyInfo hw (sensor_select s1) propF \<noteq> None \<longrightarrow>
        outF = Returned \<and>
        device sF = device s \<and> conf sF = conf s \<and> targetFormat sF = targetFormat s \<and>
        calls_where is_value_write (trace sF) = calls_where is_value_write (trace s) \<and>
        logged WARN (trace sF) = logged WARN (trace s) @ [''Property '%s' not supported!'']"
    using apply_unsupported [OF sel s1 _ _ rf'] by blast
  have d: "VRmUsbCamGetPropertySupported hw (sensor_select s1) propF = Some True \<and>
      VRmUsbCamSetPropertyValueF hw (sensor_select s1) propF vf \<and>
      VRmUsbCamGetPropertyInfo hw (sensor_select s1) propF \<noteq> None \<longrightarrow>
        outF = Returned \<and>
        device sF = device s \<and> conf sF = conf s \<and> targetFormat sF = targetFormat s \<and>
        calls_where is_value_write (trace sF)
          = calls_where is_value_write (trace s) @ [SetPropertyValueF propF vf] \<and>
        logged INFO (trace sF) = logged INFO (trace s) @ [''%s changed to: %f ms'']"
    using apply_supported [OF sel s1 _ _ _ _ rf'] by simp
  from a b c d show ?thesis by (intro conjI)
qed

theorem setSingleProperty_supported_or_skipped_witness:
  "fst (setSinglePropertyI sensor_sdk 500 VRM_PROPID_CAM_GAIN_MONOCHROME_I 1 running_state)
     = Returned \<and>
   calls_where is_value_write (trace (snd
     (setSinglePropertyI sensor_sdk 500 VRM_PROPID_CAM_GAIN_MONOCHROME_I 1 running_state)))
     = [SetPropertyValueI VRM_PROPID_CAM_GAIN_MONOCHROME_I 500] \<and>
   fst (setSinglePropertyF sensor_sdk (Finite 2.5) VRM_PROPID_CAM_EXPOSURE_TIME_F 1 running_state)
     = Returned \<and>
   calls_where is_value_write (trace (snd
     (setSinglePropertyF sensor_sdk (Finite 2.5) VRM_PROPID_CAM_EXPOSURE_TIME_F 1 running_state)))
     = [] \<and>
   logged WARN (trace (snd
     (setSinglePropertyF sensor_sdk (Finite 2.5) VRM_PROPID_CAM_EXPOSURE_TIME_F 1 running_state)))
     = [''Property '%s' not supported!''] \<and>
   fst (setSinglePropertyI exposure_sdk 500 VRM_PROPID_CAM_GAIN_MONOCHROME_I 1 running_state)
     = Returned \<and>
   calls_where is_value_write (trace (snd
     (setSinglePropertyI exposure_sdk 500 VRM_PROPID_CAM_GAIN_MONOCHROME_I 1 running_state)))
     = [] \<and>
   logged WARN (trace (snd
     (setSinglePropertyI exposure_sdk 500 VRM_PROPID_CAM_GAIN_MONOCHROME_I 1 running_state)))
     = [''Property '%s' not supported!''] \<and>
   fst (setSinglePropertyF exposure_sdk (Finite 2.5) VRM_PROPID_CAM_EXPOSURE_TIME_F 1
     running_state) = Returned \<and>
   calls_where is_value_write (trace (snd
     (setSinglePropertyF exposure_sdk (Finite 2.5) VRM_PROPID_CAM_EXPOSURE_TIME_F 1
        running_state)))
     = [SetPropertyValueF VRM_PROPID_CAM_EXPOSURE_TIME_F (Finite 2.5)]"
proof -
  let ?gi = "\<lambda>hw. setSinglePropertyI hw 500 VRM_PROPID_CAM_GAIN_MONOCHROME_I 1 running_state"
  let ?ef = "\<lambda>hw. setSinglePropertyF hw (Finite 2.5) VRM_PROPID_CAM_EXPOSURE_TIME_F 1
      running_state"
  have sel1: "sensor_select (snd (setSensorActive sensor_sdk 1 running_state))
      = Some VRM_PROPID_GRAB_SENSOR_PROPS_SELECT_1"
    "sensor_select (snd (setSensorActive exposure_sdk 1 running_state))
      = Some VRM_PROPID_GRAB_SENSOR_PROPS_SELECT_1"
    by (simp_all add: setSensorActive_def portnumToPropId_def write_enum_property_def
        sdk_called_def exposure_sdk_def sensor_sdk_def idle_sdk_def running_state_def)
  have p: "fst (portnumToPropId 1 running_state) = Some VRM_PROPID_GRAB_SENSOR_PROPS_SELECT_1"
    by (simp add: portnumToPropId_def)
  have t: "trace running_state = []"
    by (simp add: running_state_def)
  have c: "(fst x, snd x) = x" for x :: "'a \<times> 'b"
    by simp
  note gain_camera = setSingleProperty_supported_or_skipped
      [OF p refl c [of "?gi sensor_sdk"] c [of "?ef sensor_sdk"]]
  note exposure_camera = setSingleProperty_supported_or_skipped
      [OF p refl c [of "?gi exposure_sdk"] c [of "?ef exposure_sdk"]]
  have "fst (?gi sensor_sdk) = Returned \<and>
      calls_where is_value_write (trace (snd (?gi sensor_sdk)))
        = [SetPropertyValueI VRM_PROPID_CAM_GAIN_MONOCHROME_I 500]"
    using gain_camera [THEN conjunct2, THEN conjunct1]
    by (simp add: sel1 t sensor_sdk_def idle_sdk_def)
  moreover have "fst (?ef sensor_sdk) = Returned \<and>
      calls_where is_value_write (trace (snd (?ef sensor_sdk))) = [] \<and>
      logged WARN (trace (snd (?ef sensor_sdk))) = [''Property '%s' not supported!'']"
    using gain_camera [THEN conjunct2, THEN conjunct2, THEN conjunct1]
    by (simp add: sel1 t sensor_sdk_def idle_sdk_def)
  moreover have "fst (?gi exposure_sdk) = Returned \<and>
      calls_where is_value_write (trace (snd (?gi exposure_sdk))) = [] \<and>
      logged WARN (trace (snd (?gi exposure_sdk))) = [''Property '%s' not supported!'']"
    using exposure_camera [THEN conjunct1]
    by (simp add: sel1 t exposure_sdk_def sensor_sdk_def idle_sdk_def)
  moreover have "fst (?ef exposure_sdk) = Returned \<and>
      calls_where is_value_write (trace (snd (?ef exposure_sdk)))
        = [SetPropertyValueF VRM_PROPID_CAM_EXPOSURE_TIME_F (Finite 2.5)]"
    using exposure_camera [THEN conjunct2, THEN conjunct2, THEN conjunct2]
    by (simp add: sel1 t exposure_sdk_def sensor_sdk_def idle_sdk_def)
  ultimately show ?thesis by simp
qed








text \<open>The whole of \<open>initCamera\<close> on that camera: the writes it makes, in order.\<close>
lemma initCamera_stereo_example:
  "fst (initCamera stereo_sdk fresh_state) = Returned \<and>
   gainLeft (conf (snd (initCamera stereo_sdk fresh_state))) = 500 \<and>
   calls_where is_write (trace (snd (initCamera stereo_sdk fresh_state))) =
     [SetPropertyValueE VRM_PROPID_GRAB_SENSOR_PROPS_SELECT_E VRM_PROPID_GRAB_SENSOR_PROPS_SELECT_1,
      SetPropertyValueE VRM_PROPID_GRAB_SENSOR_PROPS_SELECT_E VRM_PROPID_GRAB_SENSOR_PROPS_SELECT_2,
      SetPropertyValueE VRM_PROPID_GRAB_SENSOR_PROPS_SELECT_E VRM_PROPID_GRAB_SENSOR_PROPS_SELECT_1,
      SetPropertyValueI VRM_PROPID_CAM_GAIN_MONOCHROME_I 500,
      SetPropertyValueE VRM_PROPID_GRAB_SENSOR_PROPS_SELECT_E VRM_PROPID_GRAB_SENSOR_PROPS_SELECT_2,
      SetPropertyValueI VRM_PROPID_CAM_GAIN_MONOCHROME_I 100,
      SetPropertyValueE VRM_PROPID_GRAB_SENSOR_PROPS_SELECT_E VRM_PROPID_GRAB_SENSOR_PROPS_SELECT_1,
      SetPropertyValueE VRM_PROPID_GRAB_SENSOR_PROPS_SELECT_E VRM_PROPID_GRAB_SENSOR_PROPS_SELECT_2]"
  by code_simp


section \<open>Properties of opening the device\<close>

lemma opened_keys_append: "opened_keys (xs @ ys) = opened_keys xs @ opened_keys ys"
  by (induction xs rule: opened_keys.induct) simp_all

lemma enumerated_append: "enumerated (xs @ ys) = enumerated xs @ enumerated ys"
  by (induction xs rule: enumerated.induct) simp_all

lemma openDevice_loop_done:
  assumes "\<not> (i < n \<and> device s = None)"
  shows "openDevice_loop hw n i s = (Returned, s)"
  by (subst openDevice_loop.simps) (simp only: assms if_False)

lemma openDevice_loop_busy:
  assumes "i < n" "device s = None"
    and "VRmUsbCamGetDeviceKeyListEntry hw i = Some b" "m_busy b"
    and "VRmUsbCamFreeDeviceKey hw b"
  shows "openDevice_loop hw n i s =
    openDevice_loop hw n (i + 1)
      (s\<lparr>trace := trace s @
         [Hw (sensor_select s) (GetDeviceKeyListEntry i),
          Hw (sensor_select s) (FreeDeviceKey b)]\<rparr>)"
  using assms
  by (subst openDevice_loop.simps) (simp add: free_key_def sdk_called_def Let_def)

lemma openDevice_loop_free:
  assumes "i < n" "device s = None"
    and "VRmUsbCamGetDeviceKeyListEntry hw i = Some key" "\<not> m_busy key"
    and "VRmUsbCamOpenDevice hw key = Some d"
    and "VRmUsbCamFreeDeviceKey hw key"
  shows "openDevice_loop hw n i s =
    (Returned,
     s\<lparr>trace := trace s @
         [Hw (sensor_select s) (GetDeviceKeyListEntry i),
          Hw (sensor_select s) (OpenDevice key),
          Log INFO ''Found device: %s [%s]'',
          Hw (sensor_select s) (FreeDeviceKey key)],
       device := Some d\<rparr>)"
proof -
  let ?s' = "s\<lparr>trace := trace s @
         [Hw (sensor_select s) (GetDeviceKeyListEntry i),
          Hw (sensor_select s) (OpenDevice key),
          Log INFO ''Found device: %s [%s]'',
          Hw (sensor_select s) (FreeDeviceKey key)],
       device := Some d\<rparr>"
  have "openDevice_loop hw n i s = openDevice_loop hw n (i + 1) ?s'"
    using assms
    by (subst openDevice_loop.simps)
       (simp add: free_key_def open_key_def sdk_called_def ros_log_def Let_def)
  also have "\<dots> = (Returned, ?s')"
    by (rule openDevice_loop_done) simp
  finally show ?thesis .
qed

lemma openDevice_loop_entry_fails:
  assumes "i < n" "device s = None"
    and "VRmUsbCamGetDeviceKeyListEntry hw i = None"
  shows "openDevice_loop hw n i s =
    (Exited EXIT_FAILURE, VRM_CHECK_log (sdk_called (GetDeviceKeyListEntry i) s))"
  using assms
  by (subst openDevice_loop.simps) (simp add: Let_def)

lemma word_succ_le:
  fixes i j n :: "32 word"
  assumes "i < n"
  shows "i + 1 \<le> j \<longleftrightarrow> i \<le> j \<and> i \<noteq> j"
  using assms unat_succ [OF assms]
  by (auto simp: word_le_nat_alt word_less_nat_alt word_unat_eq_iff)

lemma openDevice_loop_all_busy:
  assumes "device s = None"
    and "\<forall>j. i \<le> j \<and> j < n \<longrightarrow>
          (\<exists>b. VRmUsbCamGetDeviceKeyListEntry hw j = Some b \<and> m_busy b
               \<and> VRmUsbCamFreeDeviceKey hw b)"
  shows "\<exists>s'. openDevice_loop hw n i s = (Returned, s') \<and> device s' = None \<and>
      opened_keys (trace s') = opened_keys (trace s)"
  using assms
proof (induction "unat n - unat i" arbitrary: i s)
  case 0
  then have "\<not> i < n" by (simp add: word_less_nat_alt)
  then show ?case using "0.prems"(1) by (simp add: openDevice_loop_done)
next
  case (Suc m)
  then have lt: "i < n" by (simp add: word_less_nat_alt)
  then obtain b where b: "VRmUsbCamGetDeviceKeyListEntry hw i = Some b" "m_busy b"
      "VRmUsbCamFreeDeviceKey hw b"
    using Suc.prems(2) by auto
  let ?s1 = "s\<lparr>trace := trace s @
         [Hw (sensor_select s) (GetDeviceKeyListEntry i),
          Hw (sensor_select s) (FreeDeviceKey b)]\<rparr>"
  have step: "openDevice_loop hw n i s = openDevice_loop hw n (i + 1) ?s1"
    using lt Suc.prems(1) b by (rule openDevice_loop_busy)
  have m: "m = unat n - unat (i + 1)"
    using Suc.hyps(2) unat_succ [OF lt] by simp
  have rest: "\<forall>j. i + 1 \<le> j \<and> j < n \<longrightarrow>
          (\<exists>b. VRmUsbCamGetDeviceKeyListEntry hw j = Some b \<and> m_busy b
               \<and> VRmUsbCamFreeDeviceKey hw b)"
    using Suc.prems(2) word_succ_le [OF lt] by blast
  have d1: "device ?s1 = None" using Suc.prems(1) by simp
  from Suc.hyps(1) [OF m d1 rest]
  obtain s' where "openDevice_loop hw n (i + 1) ?s1 = (Returned, s')" "device s' = None"
    "opened_keys (trace s') = opened_keys (trace ?s1)"
    by blast
  then show ?case using step by (simp add: opened_keys_append)
qed

lemma openDevice_loop_first_free:
  assumes "device s = None" "i \<le> k" "k < n"
    and "VRmUsbCamGetDeviceKeyListEntry hw k = Some key" "\<not> m_busy key"
    and "VRmUsbCamOpenDevice hw key = Some d"
    and "VRmUsbCamFreeDeviceKey hw key"
    and "\<forall>j. i \<le> j \<and> j < k \<longrightarrow>
          (\<exists>b. VRmUsbCamGetDeviceKeyListEntry hw j = Some b \<and> m_busy b
               \<and> VRmUsbCamFreeDeviceKey hw b)"
  shows "\<exists>s'. openDevice_loop hw n i s = (Returned, s') \<and> device s' = Some d \<and>
      opened_keys (trace s') = opened_keys (trace s) @ [key] \<and>
      enumerated (trace s') = enumerated (trace s) @ map of_nat [unat i..<Suc (unat k)]"
  using assms
proof (induction "unat k - unat i" arbitrary: i s)
  case 0
  then have ik: "i = k" by (simp add: word_le_nat_alt word_unat_eq_iff)
  show ?case
    unfolding ik
    using openDevice_loop_free [OF "0.prems"(3) "0.prems"(1) "0.prems"(4,5,6,7)]
    by (simp add: opened_keys_append enumerated_append)
next
  case (Suc m)
  then have lt: "i < k" by (simp add: word_less_nat_alt)
  then have ltn: "i < n" using Suc.prems(3) by simp
  obtain b where b: "VRmUsbCamGetDeviceKeyListEntry hw i = Some b" "m_busy b"
      "VRmUsbCamFreeDeviceKey hw b"
    using Suc.prems(8) lt by auto
  let ?s1 = "s\<lparr>trace := trace s @
         [Hw (sensor_select s) (GetDeviceKeyListEntry i),
          Hw (sensor_select s) (FreeDeviceKey b)]\<rparr>"
  have step: "openDevice_loop hw n i s = openDevice_loop hw n (i + 1) ?s1"
    using ltn Suc.prems(1) b by (rule openDevice_loop_busy)
  have su: "unat (i + 1) = Suc (unat i)" using lt by (rule unat_succ)
  have m: "m = unat k - unat (i + 1)"
    using Suc.hyps(2) su by simp
  have le: "i + 1 \<le> k" using lt word_succ_le [OF lt, of k] by auto
  have rest: "\<forall>j. i + 1 \<le> j \<and> j < k \<longrightarrow>
          (\<exists>b. VRmUsbCamGetDeviceKeyListEntry hw j = Some b \<and> m_busy b
               \<and> VRmUsbCamFreeDeviceKey hw b)"
    using Suc.prems(8) word_succ_le [OF lt] by blast
  have d1: "device ?s1 = None" using Suc.prems(1) by simp
  from Suc.hyps(1) [OF m d1 le Suc.prems(3,4,5,6,7) rest]
  obtain s' where s': "openDevice_loop hw n (i + 1) ?s1 = (Returned, s')" "device s' = Some d"
    "opened_keys (trace s') = opened_keys (trace ?s1) @ [key]"
    "enumerated (trace s') = enumerated (trace ?s1) @ map of_nat [unat (i + 1)..<Suc (unat k)]"
    by blast
  have "unat i < Suc (unat k)" using lt by (simp add: word_less_nat_alt)
  then have "[unat i..<Suc (unat k)] = unat i # [unat (i + 1)..<Suc (unat k)]"
    using su by (simp add: upt_conv_Cons)
  then show ?case using step s' by (simp add: opened_keys_append enumerated_append)
qed


lemma openDevice_loop_enumeration_fails:
  assumes "device s = None" "i \<le> k" "k < n"
    and "VRmUsbCamGetDeviceKeyListEntry hw k = None"
    and "\<forall>j. i \<le> j \<and> j < k \<longrightarrow>
          (\<exists>b. VRmUsbCamGetDeviceKeyListEntry hw j = Some b \<and> m_busy b
               \<and> VRmUsbCamFreeDeviceKey hw b)"
  shows "\<exists>s'. openDevice_loop hw n i s = (Exited EXIT_FAILURE, s') \<and>
      opened_keys (trace s') = opened_keys (trace s)"
  using assms
proof (induction "unat k - unat i" arbitrary: i s)
  case 0
  then have ik: "i = k" by (simp add: word_le_nat_alt word_unat_eq_iff)
  show ?case
    unfolding ik
    using openDevice_loop_entry_fails [OF "0.prems"(3) "0.prems"(1) "0.prems"(4)]
    by (simp add: opened_keys_append VRM_CHECK_log_def ros_log_def sdk_called_def)
next
  case (Suc m)
  then have lt: "i < k" by (simp add: word_less_nat_alt)
  then have ltn: "i < n" using Suc.prems(3) by simp
  obtain b where b: "VRmUsbCamGetDeviceKeyListEntry hw i = Some b" "m_busy b"
      "VRmUsbCamFreeDeviceKey hw b"
    using Suc.prems(5) lt by auto
  let ?s1 = "s\<lparr>trace := trace s @
         [Hw (sensor_select s) (GetDeviceKeyListEntry i),
          Hw (sensor_select s) (FreeDeviceKey b)]\<rparr>"
  have step: "openDevice_loop hw n i s = openDevice_loop hw n (i + 1) ?s1"
    using ltn Suc.prems(1) b by (rule openDevice_loop_busy)
  have m: "m = unat k - unat (i + 1)"
    using Suc.hyps(2) unat_succ [OF lt] by simp
  have le: "i + 1 \<le> k" using lt word_succ_le [OF lt, of k] by auto
  have rest: "\<forall>j. i + 1 \<le> j \<and> j < k \<longrightarrow>
          (\<exists>b. VRmUsbCamGetDeviceKeyListEntry hw j = Some b \<and> m_busy b
               \<and> VRmUsbCamFreeDeviceKey hw b)"
    using Suc.prems(5) word_succ_le [OF lt] by blast
  have d1: "device ?s1 = None" using Suc.prems(1) by simp
  from Suc.hyps(1) [OF m d1 le Suc.prems(3,4) rest]
  obtain s' where "openDevice_loop hw n (i + 1) ?s1 = (Exited EXIT_FAILURE, s')"
    "opened_keys (trace s') = opened_keys (trace ?s1)"
    by blast
  then show ?case using step by (simp add: opened_keys_append)
qed

text \<open>The state in which the loop of \<open>openDevice\<close> starts.\<close>
lemma openDevice_run:
  assumes "VRmUsbCamGetVersion hw = Some v"
    and "VRmUsbCamGetDeviceKeyListSize hw = Some n"
  shows "openDevice hw s =
    (case openDevice_loop hw n 0
            (s\<lparr>trace := trace s @
                 [Hw (sensor_select s) GetVersion,
                  Log INFO ''VR Magic lib has version %d'',
                  Log INFO ''Scanning for devices'',
                  Hw (sensor_select s) GetDeviceKeyListSize,
                  Log INFO ''Found %d devices''],
               device := None\<rparr>) of
       (Returned, s7) \<Rightarrow>
         if device s7 = None
         then (Exited (- 1),
               s7\<lparr>trace := trace s7 @
                  [Log INFO ''Trying to open device'',
                   Log FATAL ''No suitable VRmagic device found!'']\<rparr>)
         else (Returned,
               s7\<lparr>trace := trace s7 @
                  [Log INFO ''Trying to open device'', Log INFO ''Device opened'']\<rparr>)
     | (oc, s7) \<Rightarrow> (oc, s7))"
  using assms
  by (simp add: openDevice_def Let_def sdk_called_def ros_log_def split: prod.splits outcome.splits)

text \<open>
  Claim C9. With the library version read: \<open>openDevice\<close> exits with
  \<open>EXIT_FAILURE\<close> when the enumeration fails (the size of the key list, or an
  entry after busy ones, cannot be read); it exits with -1 when every listed key is
  busy; and when the key at index \<open>k\<close> is the first that is not busy, it reads the
  entries 0 to \<open>k\<close> in order, opens that key and no other, and returns with
  its handle.
\<close>
theorem openDevice_opens_first_free:
  assumes ver: "VRmUsbCamGetVersion hw = Some v"
    and r: "(out, s') = openDevice hw s"
  shows "(VRmUsbCamGetDeviceKeyListSize hw = None \<longrightarrow>
            out = Exited EXIT_FAILURE \<and> opened_keys (trace s') = opened_keys (trace s)) \<and>
    (\<forall>n k. VRmUsbCamGetDeviceKeyListSize hw = Some n \<and> k < n \<and>
        VRmUsbCamGetDeviceKeyListEntry hw k = None \<and>
        (\<forall>j<k. \<exists>b. VRmUsbCamGetDeviceKeyListEntry hw j = Some b \<and> m_busy b
                  \<and> VRmUsbCamFreeDeviceKey hw b) \<longrightarrow>
            out = Exited EXIT_FAILURE \<and> opened_keys (trace s') = opened_keys (trace s)) \<and>
    (\<forall>n. VRmUsbCamGetDeviceKeyListSize hw = Some n \<and>
        (\<forall>j<n. \<exists>b. VRmUsbCamGetDeviceKeyListEntry hw j = Some b \<and> m_busy b
                  \<and> VRmUsbCamFreeDeviceKey hw b) \<longrightarrow>
            out = Exited (- 1) \<and> opened_keys (trace s') = opened_keys (trace s)) \<and>
    (\<forall>n k key d. VRmUsbCamGetDeviceKeyListSize hw = Some n \<and> k < n \<and>
        VRmUsbCamGetDeviceKeyListEntry hw k = Some key \<and> \<not> m_busy key \<and>
        (\<forall>j<k. \<exists>b. VRmUsbCamGetDeviceKeyListEntry hw j = Some b \<and> m_busy b
                  \<and> VRmUsbCamFreeDeviceKey hw b) \<and>
        VRmUsbCamOpenDevice hw key = Some d \<and> VRmUsbCamFreeDeviceKey hw key \<longrightarrow>
            out = Returned \<and> device s' = Some d \<and>
            opened_keys (trace s') = opened_keys (trace s) @ [key] \<and>
            enumerated (trace s') = enumerated (trace s) @ map of_nat [0..<Suc (unat k)])"
proof (intro conjI allI impI)
  assume "VRmUsbCamGetDeviceKeyListSize hw = None"
  then have "openDevice hw s =
      (Exited EXIT_FAILURE,
       VRM_CHECK_log (sdk_called GetDeviceKeyListSize
         (ros_log INFO ''Scanning for devices''
           (ros_log INFO ''VR Magic lib has version %d'' (sdk_called GetVersion s)))))"
    using ver by (simp add: openDevice_def Let_def)
  then have "out = Exited EXIT_FAILURE \<and> opened_keys (trace s') = opened_keys (trace s)"
    using r by (simp add: VRM_CHECK_log_def sdk_called_def ros_log_def opened_keys_append)
  then show "out = Exited EXIT_FAILURE" "opened_keys (trace s') = opened_keys (trace s)"
    by simp_all
next
  let ?s6 = "s\<lparr>trace := trace s @
                 [Hw (sensor_select s) GetVersion,
                  Log INFO ''VR Magic lib has version %d'',
                  Log INFO ''Scanning for devices'',
                  Hw (sensor_select s) GetDeviceKeyListSize,
                  Log INFO ''Found %d devices''],
               device := None\<rparr>"
  fix n k
  assume a: "VRmUsbCamGetDeviceKeyListSize hw = Some n \<and> k < n \<and>
        VRmUsbCamGetDeviceKeyListEntry hw k = None \<and>
        (\<forall>j<k. \<exists>b. VRmUsbCamGetDeviceKeyListEntry hw j = Some b \<and> m_busy b
                  \<and> VRmUsbCamFreeDeviceKey hw b)"
  then have busy: "\<forall>j. 0 \<le> j \<and> j < k \<longrightarrow>
          (\<exists>b. VRmUsbCamGetDeviceKeyListEntry hw j = Some b \<and> m_busy b
               \<and> VRmUsbCamFreeDeviceKey hw b)"
    by simp
  have d: "device ?s6 = None" by simp
  from a have kn: "k < n" and e: "VRmUsbCamGetDeviceKeyListEntry hw k = None"
    and sz: "VRmUsbCamGetDeviceKeyListSize hw = Some n"
    by simp_all
  from openDevice_loop_enumeration_fails [OF d _ kn e busy]
  obtain s7 where "openDevice_loop hw n 0 ?s6 = (Exited EXIT_FAILURE, s7)"
    "opened_keys (trace s7) = opened_keys (trace ?s6)"
    by auto
  then have "out = Exited EXIT_FAILURE \<and> opened_keys (trace s') = opened_keys (trace s)"
    using r by (simp add: openDevice_run [OF ver sz] opened_keys_append)
  then show "out = Exited EXIT_FAILURE" "opened_keys (trace s') = opened_keys (trace s)"
    by simp_all
next
  let ?s6 = "s\<lparr>trace := trace s @
                 [Hw (sensor_select s) GetVersion,
                  Log INFO ''VR Magic lib has version %d'',
                  Log INFO ''Scanning for devices'',
                  Hw (sensor_select s) GetDeviceKeyListSize,
                  Log INFO ''Found %d devices''],
               device := None\<rparr>"
  fix n
  assume a: "VRmUsbCamGetDeviceKeyListSize hw = Some n \<and>
        (\<forall>j<n. \<exists>b. VRmUsbCamGetDeviceKeyListEntry hw j = Some b \<and> m_busy b
                  \<and> VRmUsbCamFreeDeviceKey hw b)"
  then have busy: "\<forall>j. 0 \<le> j \<and> j < n \<longrightarrow>
          (\<exists>b. VRmUsbCamGetDeviceKeyListEntry hw j = Some b \<and> m_busy b
               \<and> VRmUsbCamFreeDeviceKey hw b)"
    by simp
  have d: "device ?s6 = None" by simp
  from a have sz: "VRmUsbCamGetDeviceKeyListSize hw = Some n" by simp
  from openDevice_loop_all_busy [OF d busy]
  obtain s7 where "openDevice_loop hw n 0 ?s6 = (Returned, s7)" "device s7 = None"
    "opened_keys (trace s7) = opened_keys (trace ?s6)"
    by auto
  then have "out = Exited (- 1) \<and> opened_keys (trace s') = opened_keys (trace s)"
    using r by (simp add: openDevice_run [OF ver sz] opened_keys_append)
  then show "out = Exited (- 1)" "opened_keys (trace s') = opened_keys (trace s)"
    by simp_all
next
  let ?s6 = "s\<lparr>trace := trace s @
                 [Hw (sensor_select s) GetVersion,
                  Log INFO ''VR Magic lib has version %d'',
                  Log INFO ''Scanning for devices'',
                  Hw (sensor_select s) GetDeviceKeyListSize,
                  Log INFO ''Found %d devices''],
               device := None\<rparr>"
  fix n k key d
  assume a: "VRmUsbCamGetDeviceKeyListSize hw = Some n \<and> k < n \<and>
        VRmUsbCamGetDeviceKeyListEntry hw k = Some key \<and> \<not> m_busy key \<and>
        (\<forall>j<k. \<exists>b. VRmUsbCamGetDeviceKeyListEntry hw j = Some b \<and> m_busy b
                  \<and> VRmUsbCamFreeDeviceKey hw b) \<and>
        VRmUsbCamOpenDevice hw key = Some d \<and> VRmUsbCamFreeDeviceKey hw key"
  then have busy: "\<forall>j. 0 \<le> j \<and> j < k \<longrightarrow>
          (\<exists>b. VRmUsbCamGetDeviceKeyListEntry hw j = Some b \<and> m_busy b
               \<and> VRmUsbCamFreeDeviceKey hw b)"
    by simp
  have dn: "device ?s6 = None" by simp
  from a have sz: "VRmUsbCamGetDeviceKeyListSize hw = Some n" and kn: "k < n"
    and e: "VRmUsbCamGetDeviceKeyListEntry hw k = Some key" and nb: "\<not> m_busy key"
    and op: "VRmUsbCamOpenDevice hw key = Some d" and fr: "VRmUsbCamFreeDeviceKey hw key"
    by simp_all
  from openDevice_loop_first_free [OF dn _ kn e nb op fr busy]
  obtain s7 where "openDevice_loop hw n 0 ?s6 = (Returned, s7)" "device s7 = Some d"
    "opened_keys (trace s7) = opened_keys (trace ?s6) @ [key]"
    "enumerated (trace s7) = enumerated (trace ?s6) @ map of_nat [unat (0 :: 32 word)..<Suc (unat k)]"
    by auto
  then have "out = Returned \<and> device s' = Some d \<and>
            opened_keys (trace s') = opened_keys (trace s) @ [key] \<and>
            enumerated (trace s') = enumerated (trace s) @ map of_nat [0..<Suc (unat k)]"
    using r by (simp add: openDevice_run [OF ver sz] opened_keys_append enumerated_append)
  then show "out = Returned" "device s' = Some d"
    "opened_keys (trace s') = opened_keys (trace s) @ [key]"
    "enumerated (trace s') = enumerated (trace s) @ map of_nat [0..<Suc (unat k)]"
    by simp_all
qed


theorem openDevice_opens_first_free_witness:
  "fst (openDevice stereo_sdk fresh_state) = Returned \<and>
   device (snd (openDevice stereo_sdk fresh_state)) = Some 1 \<and>
   opened_keys (trace (snd (openDevice stereo_sdk fresh_state))) = [camera_key] \<and>
   enumerated (trace (snd (openDevice stereo_sdk fresh_state))) = [0, 1] \<and>
   fst (openDevice busy_sdk fresh_state) = Exited (- 1) \<and>
   opened_keys (trace (snd (openDevice busy_sdk fresh_state))) = [] \<and>
   fst (openDevice unplugged_sdk fresh_state) = Exited EXIT_FAILURE \<and>
   opened_keys (trace (snd (openDevice unplugged_sdk fresh_state))) = []"
proof -
  let ?r = "openDevice stereo_sdk fresh_state"
  let ?b = "openDevice busy_sdk fresh_state"
  let ?u = "openDevice unplugged_sdk fresh_state"
  have v: "VRmUsbCamGetVersion stereo_sdk = Some 3"
    "VRmUsbCamGetVersion busy_sdk = Some 3" "VRmUsbCamGetVersion unplugged_sdk = Some 3"
    by (simp_all add: stereo_sdk_def sensor_sdk_def idle_sdk_def busy_sdk_def unplugged_sdk_def)
  have r: "(fst ?r, snd ?r) = ?r" "(fst ?b, snd ?b) = ?b" "(fst ?u, snd ?u) = ?u"
    by simp_all
  have hyp: "VRmUsbCamGetDeviceKeyListSize stereo_sdk = Some 3 \<and> (1 :: 32 word) < 3 \<and>
        VRmUsbCamGetDeviceKeyListEntry stereo_sdk 1 = Some camera_key \<and> \<not> m_busy camera_key \<and>
        (\<forall>j<1. \<exists>b. VRmUsbCamGetDeviceKeyListEntry stereo_sdk j = Some b \<and> m_busy b
                  \<and> VRmUsbCamFreeDeviceKey stereo_sdk b) \<and>
        VRmUsbCamOpenDevice stereo_sdk camera_key = Some 1
        \<and> VRmUsbCamFreeDeviceKey stereo_sdk camera_key"
    by (simp add: stereo_sdk_def sensor_sdk_def idle_sdk_def camera_key_def busy_key_def)
  have hypb: "VRmUsbCamGetDeviceKeyListSize busy_sdk = Some 1 \<and>
        (\<forall>j<1. \<exists>b. VRmUsbCamGetDeviceKeyListEntry busy_sdk j = Some b \<and> m_busy b
                  \<and> VRmUsbCamFreeDeviceKey busy_sdk b)"
    by (simp add: busy_sdk_def stereo_sdk_def sensor_sdk_def idle_sdk_def busy_key_def)
  have hypu: "VRmUsbCamGetDeviceKeyListSize unplugged_sdk = None"
    by (simp add: unplugged_sdk_def stereo_sdk_def sensor_sdk_def idle_sdk_def)
  have "fst ?r = Returned \<and> device (snd ?r) = Some 1 \<and>
      opened_keys (trace (snd ?r)) = opened_keys (trace fresh_state) @ [camera_key] \<and>
      enumerated (trace (snd ?r))
        = enumerated (trace fresh_state) @ map of_nat [0..<Suc (unat (1 :: 32 word))]"
    using openDevice_opens_first_free [OF v(1) r(1)] hyp by blast
  moreover have "fst ?b = Exited (- 1) \<and>
      opened_keys (trace (snd ?b)) = opened_keys (trace fresh_state)"
    using openDevice_opens_first_free [OF v(2) r(2)] hypb by blast
  moreover have "fst ?u = Exited EXIT_FAILURE \<and>
      opened_keys (trace (snd ?u)) = opened_keys (trace fresh_state)"
    using openDevice_opens_first_free [OF v(3) r(3)] hypu by blast
  ultimately show ?thesis
    by (simp add: fresh_state_def upt_rec)
qed

section \<open>Properties of format negotiation\<close>

lemma setTargetFormat_loop_done:
  assumes "\<not> i < n"
  shows "setTargetFormat_loop hw n i s = (Returned, s)"
  by (subst setTargetFormat_loop.simps) (simp only: assms if_False)

lemma setTargetFormat_loop_match:
  assumes "i < n"
    and "VRmUsbCamGetTargetFormatListEntryEx2 hw (portLeft (conf s)) i = Some f"
    and "m_color_format f = TARGET_COLOR_FORMAT"
  shows "setTargetFormat_loop hw n i s =
    (Returned,
     s\<lparr>trace := trace s @
          [Hw (sensor_select s) (GetTargetFormatListEntryEx2 (portLeft (conf s)) i)],
       targetFormat := Some f\<rparr>)"
  using assms
  by (subst setTargetFormat_loop.simps) (simp add: sdk_called_def Let_def)

lemma setTargetFormat_loop_other:
  assumes "i < n"
    and "VRmUsbCamGetTargetFormatListEntryEx2 hw (portLeft (conf s)) i = Some g"
    and "m_color_format g \<noteq> TARGET_COLOR_FORMAT"
  shows "setTargetFormat_loop hw n i s =
    setTargetFormat_loop hw n (i + 1)
      (s\<lparr>trace := trace s @
          [Hw (sensor_select s) (GetTargetFormatListEntryEx2 (portLeft (conf s)) i)],
        targetFormat := Some g\<rparr>)"
  using assms
  by (subst setTargetFormat_loop.simps) (simp add: sdk_called_def Let_def)

lemma setTargetFormat_loop_first_match:
  assumes "port = portLeft (conf s)" "i \<le> k" "k < n"
    and "VRmUsbCamGetTargetFormatListEntryEx2 hw port k = Some f"
    and "m_color_format f = TARGET_COLOR_FORMAT"
    and "\<forall>j. i \<le> j \<and> j < k \<longrightarrow>
          (\<exists>g. VRmUsbCamGetTargetFormatListEntryEx2 hw port j = Some g
               \<and> m_color_format g \<noteq> TARGET_COLOR_FORMAT)"
  shows "\<exists>s'. setTargetFormat_loop hw n i s = (Returned, s') \<and> targetFormat s' = Some f \<and>
      conf s' = conf s \<and> calls_where is_write (trace s') = calls_where is_write (trace s)"
  using assms
proof (induction "unat k - unat i" arbitrary: i s)
  case 0
  then have ik: "i = k" by (simp add: word_le_nat_alt word_unat_eq_iff)
  have e: "VRmUsbCamGetTargetFormatListEntryEx2 hw (portLeft (conf s)) k = Some f"
    using "0.prems"(1,4) by simp
  show ?case
    unfolding ik
    using setTargetFormat_loop_match [OF "0.prems"(3) e "0.prems"(5)]
    by (simp add: calls_where_append)
next
  case (Suc m)
  then have lt: "i < k" by (simp add: word_less_nat_alt)
  then have ltn: "i < n" using Suc.prems(3) by simp
  obtain g where g: "VRmUsbCamGetTargetFormatListEntryEx2 hw (portLeft (conf s)) i = Some g"
      "m_color_format g \<noteq> TARGET_COLOR_FORMAT"
    using Suc.prems(1,6) lt by auto
  let ?s1 = "s\<lparr>trace := trace s @
          [Hw (sensor_select s) (GetTargetFormatListEntryEx2 (portLeft (conf s)) i)],
        targetFormat := Some g\<rparr>"
  have step: "setTargetFormat_loop hw n i s = setTargetFormat_loop hw n (i + 1) ?s1"
    using ltn g by (rule setTargetFormat_loop_other)
  have m: "m = unat k - unat (i + 1)"
    using Suc.hyps(2) unat_succ [OF lt] by simp
  have le: "i + 1 \<le> k" using lt word_succ_le [OF lt, of k] by auto
  have rest: "\<forall>j. i + 1 \<le> j \<and> j < k \<longrightarrow>
          (\<exists>g. VRmUsbCamGetTargetFormatListEntryEx2 hw port j = Some g
               \<and> m_color_format g \<noteq> TARGET_COLOR_FORMAT)"
    using Suc.prems(6) word_succ_le [OF lt] by blast
  have p1: "port = portLeft (conf ?s1)" using Suc.prems(1) by simp
  from Suc.hyps(1) [OF m p1 le Suc.prems(3,4,5) rest]
  obtain s' where "setTargetFormat_loop hw n (i + 1) ?s1 = (Returned, s')"
    "targetFormat s' = Some f" "conf s' = conf ?s1"
    "calls_where is_write (trace s') = calls_where is_write (trace ?s1)"
    by blast
  then show ?case using step by (simp add: calls_where_append)
qed

lemma setTargetFormat_loop_no_match:
  assumes "port = portLeft (conf s)" "i < n"
    and "\<forall>j. i \<le> j \<and> j < n \<longrightarrow>
          (\<exists>g. VRmUsbCamGetTargetFormatListEntryEx2 hw port j = Some g
               \<and> m_color_format g \<noteq> TARGET_COLOR_FORMAT)"
  shows "\<exists>s' g. setTargetFormat_loop hw n i s = (Returned, s') \<and> targetFormat s' = Some g \<and>
      m_color_format g \<noteq> TARGET_COLOR_FORMAT \<and>
      conf s' = conf s \<and> calls_where is_write (trace s') = calls_where is_write (trace s)"
  using assms
proof (induction "unat n - unat i" arbitrary: i s)
  case 0
  then show ?case by (simp add: word_less_nat_alt)
next
  case (Suc m)
  obtain g where g: "VRmUsbCamGetTargetFormatListEntryEx2 hw (portLeft (conf s)) i = Some g"
      "m_color_format g \<noteq> TARGET_COLOR_FORMAT"
    using Suc.prems by auto
  let ?s1 = "s\<lparr>trace := trace s @
          [Hw (sensor_select s) (GetTargetFormatListEntryEx2 (portLeft (conf s)) i)],
        targetFormat := Some g\<rparr>"
  have step: "setTargetFormat_loop hw n i s = setTargetFormat_loop hw n (i + 1) ?s1"
    using Suc.prems(2) g by (rule setTargetFormat_loop_other)
  show ?case
  proof (cases "i + 1 < n")
    case False
    then have "setTargetFormat_loop hw n (i + 1) ?s1 = (Returned, ?s1)"
      by (rule setTargetFormat_loop_done)
    then show ?thesis using step g(2) by (simp add: calls_where_append)
  next
    case True
    have m: "m = unat n - unat (i + 1)"
      using Suc.hyps(2) unat_succ [OF Suc.prems(2)] by simp
    have rest: "\<forall>j. i + 1 \<le> j \<and> j < n \<longrightarrow>
          (\<exists>g. VRmUsbCamGetTargetFormatListEntryEx2 hw port j = Some g
               \<and> m_color_format g \<noteq> TARGET_COLOR_FORMAT)"
      using Suc.prems(3) word_succ_le [OF Suc.prems(2)] by blast
    have p1: "port = portLeft (conf ?s1)" using Suc.prems(1) by simp
    from Suc.hyps(1) [OF m p1 True rest]
    obtain s' g' where "setTargetFormat_loop hw n (i + 1) ?s1 = (Returned, s')"
      "targetFormat s' = Some g'" "m_color_format g' \<noteq> TARGET_COLOR_FORMAT"
      "conf s' = conf ?s1"
      "calls_where is_write (trace s') = calls_where is_write (trace ?s1)"
      by blast
    then show ?thesis using step by (simp add: calls_where_append)
  qed
qed

text \<open>A list with an entry of the target colour format: the first such entry becomes
  the cached target format; nothing is written to the device.\<close>
lemma setTargetFormat_selects_first_match:
  assumes sz: "VRmUsbCamGetTargetFormatListSizeEx2 hw (portLeft (conf s)) = Some n"
    and kn: "k < n"
    and e: "VRmUsbCamGetTargetFormatListEntryEx2 hw (portLeft (conf s)) k = Some f"
    and c: "m_color_format f = TARGET_COLOR_FORMAT"
    and before: "\<forall>j<k. \<exists>g. VRmUsbCamGetTargetFormatListEntryEx2 hw (portLeft (conf s)) j = Some g
                  \<and> m_color_format g \<noteq> TARGET_COLOR_FORMAT"
    and str: "VRmUsbCamGetStringFromColorFormat hw TARGET_COLOR_FORMAT = Some name"
  shows "\<exists>s'. setTargetFormat hw s = (Returned, s') \<and> targetFormat s' = Some f \<and>
      calls_where is_write (trace s') = calls_where is_write (trace s)"
proof -
  let ?s1 = "sdk_called (GetTargetFormatListSizeEx2 (portLeft (conf s))) s"
  have p: "portLeft (conf s) = portLeft (conf ?s1)" by (simp add: sdk_called_def)
  have b: "\<forall>j. 0 \<le> j \<and> j < k \<longrightarrow>
      (\<exists>g. VRmUsbCamGetTargetFormatListEntryEx2 hw (portLeft (conf s)) j = Some g
           \<and> m_color_format g \<noteq> TARGET_COLOR_FORMAT)"
    using before by simp
  from setTargetFormat_loop_first_match [OF p _ kn e c b]
  obtain s2 where s2: "setTargetFormat_loop hw n 0 ?s1 = (Returned, s2)"
    "targetFormat s2 = Some f" "conf s2 = conf ?s1"
    "calls_where is_write (trace s2) = calls_where is_write (trace ?s1)"
    by auto
  show ?thesis
    using sz s2 c str
    by (simp add: setTargetFormat_def Let_def sdk_called_def ros_log_def calls_where_append)
qed

text \<open>A list with entries, none of the target colour format: the process exits
  (with -1 when the name of the format can be read), and nothing is written.\<close>
lemma setTargetFormat_no_match_exits:
  assumes sz: "VRmUsbCamGetTargetFormatListSizeEx2 hw (portLeft (conf s)) = Some n"
    and ne: "0 < n"
    and all: "\<forall>j<n. \<exists>g. VRmUsbCamGetTargetFormatListEntryEx2 hw (portLeft (conf s)) j = Some g
                  \<and> m_color_format g \<noteq> TARGET_COLOR_FORMAT"
  shows "\<exists>c s'. setTargetFormat hw s = (Exited c, s') \<and>
      (VRmUsbCamGetStringFromColorFormat hw TARGET_COLOR_FORMAT \<noteq> None \<longrightarrow> c = - 1) \<and>
      calls_where is_write (trace s') = calls_where is_write (trace s)"
proof -
  let ?s1 = "sdk_called (GetTargetFormatListSizeEx2 (portLeft (conf s))) s"
  have p: "portLeft (conf s) = portLeft (conf ?s1)" by (simp add: sdk_called_def)
  have b: "\<forall>j. 0 \<le> j \<and> j < n \<longrightarrow>
      (\<exists>g. VRmUsbCamGetTargetFormatListEntryEx2 hw (portLeft (conf s)) j = Some g
           \<and> m_color_format g \<noteq> TARGET_COLOR_FORMAT)"
    using all by simp
  from setTargetFormat_loop_no_match [OF p ne b]
  obtain s2 g where s2: "setTargetFormat_loop hw n 0 ?s1 = (Returned, s2)"
    "targetFormat s2 = Some g" "m_color_format g \<noteq> TARGET_COLOR_FORMAT"
    "calls_where is_write (trace s2) = calls_where is_write (trace ?s1)"
    by auto
  show ?thesis
    using sz s2
    by (cases "VRmUsbCamGetStringFromColorFormat hw TARGET_COLOR_FORMAT")
       (simp_all add: setTargetFormat_def Let_def sdk_called_def ros_log_def VRM_CHECK_log_def
          calls_where_append)
qed

text \<open>
  Claim C6, at an empty list of target formats. The claim has the negotiation fail
  fatally over every list without an entry of the target colour format. With no
  entry at all the loop never assigns \<open>targetFormat\<close>, and the check after the loop
  reads the member as it was: never assigned in the constructor (undefined), or, had
  it held a BGR format, accepted as the selected format.
\<close>
theorem setTargetFormat_empty_list_not_fatal:
  "setTargetFormat no_formats_sdk fresh_state
     = (Undefined, fresh_state\<lparr>trace := [Hw None (GetTargetFormatListSizeEx2 1)]\<rparr>)
   \<and> setTargetFormat no_formats_sdk running_state
     = (Returned,
        running_state\<lparr>trace :=
          [Hw (Some VRM_PROPID_GRAB_SENSOR_PROPS_SELECT_2) (GetTargetFormatListSizeEx2 1),
           Hw (Some VRM_PROPID_GRAB_SENSOR_PROPS_SELECT_2) (GetStringFromColorFormat VRM_BGR_3X8),
           Log INFO ''Selected target format: %d x %d (%s)'']\<rparr>)"
proof -
  have l: "setTargetFormat_loop hw 0 0 s = (Returned, s)" for hw s
    by (rule setTargetFormat_loop_done) simp
  show ?thesis
    by (simp add: setTargetFormat_def Let_def l no_formats_sdk_def stereo_sdk_def sensor_sdk_def
        idle_sdk_def fresh_state_def running_state_def example_conf_def sdk_called_def ros_log_def
        bgr_2x2_def TARGET_COLOR_FORMAT_def)
qed

end
